theory Spec2Isabelle
  imports Complex_Main "HOL-Library.Sublist"
begin

section \<open>Python values and exceptions\<close>

text \<open>
  The tools work on parsed JSON: nested dictionaries and lists of Python values. A value
  is modelled as a \<open>pyval\<close>; a dictionary is an association list in which every key
  occurs once, in insertion order. Floats are modelled by the rational number they denote
  (rounding of float arithmetic is not modelled). Strings are ASCII character lists.

  An exception is its type name (\<open>type(e).__name__\<close>) and its message (\<open>str(e)\<close>),
  the two things the tools report. A computation that may raise returns
  \<open>exn + 'a\<close>, with \<open>Inl\<close> the exception.
\<close>

datatype pyval =
    PNone
  | PBool bool
  | PInt int
  | PFloat rat
  | PStr string
  | PList "pyval list"
  | PDict "(pyval \<times> pyval) list"

datatype exn = Exn (exn_type: string) (exn_str: string)

definition bindE :: "exn + 'a \<Rightarrow> ('a \<Rightarrow> exn + 'b) \<Rightarrow> exn + 'b" where
  "bindE m f = (case m of Inl e \<Rightarrow> Inl e | Inr x \<Rightarrow> f x)"

fun foldE :: "('a \<Rightarrow> 's \<Rightarrow> exn + 's) \<Rightarrow> 'a list \<Rightarrow> 's \<Rightarrow> exn + 's" where
  "foldE f [] s = Inr s"
| "foldE f (x # xs) s = bindE (f x s) (foldE f xs)"

fun mapE :: "('a \<Rightarrow> exn + 'b) \<Rightarrow> 'a list \<Rightarrow> exn + 'b list" where
  "mapE f [] = Inr []"
| "mapE f (x # xs) = bindE (f x) (\<lambda>y. bindE (mapE f xs) (\<lambda>ys. Inr (y # ys)))"

definition sq :: string where
  "sq = [CHR 0x27]"

definition dq :: string where
  "dq = [CHR 0x22]"

fun type_name :: "pyval \<Rightarrow> string" where
  "type_name PNone = ''NoneType''"
| "type_name (PBool b) = ''bool''"
| "type_name (PInt i) = ''int''"
| "type_name (PFloat r) = ''float''"
| "type_name (PStr s) = ''str''"
| "type_name (PList xs) = ''list''"
| "type_name (PDict kvs) = ''dict''"

definition AttributeError :: "pyval \<Rightarrow> string \<Rightarrow> exn" where
  "AttributeError v a =
     Exn ''AttributeError'' (sq @ type_name v @ sq @ '' object has no attribute '' @ sq @ a @ sq)"

definition KeyError :: "string \<Rightarrow> exn" where
  "KeyError k = Exn ''KeyError'' (sq @ k @ sq)"

definition TypeError :: "string \<Rightarrow> exn" where
  "TypeError msg = Exn ''TypeError'' msg"

definition ValueError :: "string \<Rightarrow> exn" where
  "ValueError msg = Exn ''ValueError'' msg"

definition Exception :: "string \<Rightarrow> exn" where
  "Exception msg = Exn ''Exception'' msg"

text \<open>Truth value of a Python object, as tested by \<open>if x:\<close> and \<open>x or y\<close>.\<close>

fun truthy :: "pyval \<Rightarrow> bool" where
  "truthy PNone = False"
| "truthy (PBool b) = b"
| "truthy (PInt i) = (i \<noteq> 0)"
| "truthy (PFloat r) = (r \<noteq> 0)"
| "truthy (PStr s) = (s \<noteq> [])"
| "truthy (PList xs) = (xs \<noteq> [])"
| "truthy (PDict kvs) = (kvs \<noteq> [])"

definition py_or :: "pyval \<Rightarrow> pyval \<Rightarrow> pyval" where
  "py_or a b = (if truthy a then a else b)"

text \<open>\<open>d.get(k, dflt)\<close>: only a dictionary has the method.\<close>

fun py_get :: "pyval \<Rightarrow> string \<Rightarrow> pyval \<Rightarrow> exn + pyval" where
  "py_get (PDict kvs) k dflt =
     Inr (case map_of kvs (PStr k) of Some v \<Rightarrow> v | None \<Rightarrow> dflt)"
| "py_get v k dflt = Inl (AttributeError v ''get'')"

text \<open>\<open>d[k]\<close> for a string key \<open>k\<close>.\<close>

fun py_index :: "pyval \<Rightarrow> string \<Rightarrow> exn + pyval" where
  "py_index (PDict kvs) k =
     (case map_of kvs (PStr k) of Some v \<Rightarrow> Inr v | None \<Rightarrow> Inl (KeyError k))"
| "py_index (PList xs) k =
     Inl (TypeError ''list indices must be integers or slices, not str'')"
| "py_index (PStr s) k =
     Inl (TypeError (''string indices must be integers, not '' @ sq @ ''str'' @ sq))"
| "py_index v k =
     Inl (TypeError (sq @ type_name v @ sq @ '' object is not subscriptable''))"

text \<open>The elements a \<open>for\<close> loop visits: a dictionary yields its keys, a string its characters.\<close>

fun py_iter :: "pyval \<Rightarrow> exn + pyval list" where
  "py_iter (PList xs) = Inr xs"
| "py_iter (PDict kvs) = Inr (map fst kvs)"
| "py_iter (PStr s) = Inr (map (\<lambda>c. PStr [c]) s)"
| "py_iter v = Inl (TypeError (sq @ type_name v @ sq @ '' object is not iterable''))"

text \<open>\<open>len(x)\<close>.\<close>

fun py_len :: "pyval \<Rightarrow> exn + nat" where
  "py_len (PList xs) = Inr (length xs)"
| "py_len (PDict kvs) = Inr (length kvs)"
| "py_len (PStr s) = Inr (length s)"
| "py_len v = Inl (TypeError (''object of type '' @ sq @ type_name v @ sq @ '' has no len()''))"

text \<open>\<open>sep.join(items)\<close>: every item must be a string.\<close>

fun join_strs :: "string \<Rightarrow> string list \<Rightarrow> string" where
  "join_strs sep [] = []"
| "join_strs sep [s] = s"
| "join_strs sep (s # t # ss) = s @ sep @ join_strs sep (t # ss)"

text \<open>\<open>str(n)\<close> of an integer: its decimal digits, with a minus sign when negative.\<close>

definition digit :: "nat \<Rightarrow> char" where
  "digit d = char_of (of_char CHR ''0'' + d)"

function str_nat :: "nat \<Rightarrow> string" where
  "str_nat n = (if n div 10 = 0 then [digit n] else str_nat (n div 10) @ [digit (n mod 10)])"
  by pat_completeness auto
termination
  by (relation "measure id") auto

declare str_nat.simps [simp del]

definition str_int :: "int \<Rightarrow> string" where
  "str_int i = (if 0 \<le> i then str_nat (nat i) else CHR ''-'' # str_nat (nat (- i)))"

fun as_str :: "nat \<Rightarrow> pyval \<Rightarrow> exn + string" where
  "as_str i (PStr s) = Inr s"
| "as_str i v =
     Inl (TypeError (''sequence item '' @ str_nat i @ '': expected str instance, ''
                     @ type_name v @ '' found''))"

fun strs_from :: "nat \<Rightarrow> pyval list \<Rightarrow> exn + string list" where
  "strs_from i [] = Inr []"
| "strs_from i (v # vs) =
     bindE (as_str i v) (\<lambda>s. bindE (strs_from (Suc i) vs) (\<lambda>ss. Inr (s # ss)))"

definition py_join :: "string \<Rightarrow> pyval list \<Rightarrow> exn + string" where
  "py_join sep items = bindE (strs_from 0 items) (\<lambda>ss. Inr (join_strs sep ss))"

section \<open>Calendar dates\<close>

text \<open>
  \<open>datetime.now()\<close> is an input of the model. Only its date part matters: the time of
  day is carried along unchanged by \<open>replace\<close> and by adding whole days, and
  \<open>strftime("%Y-%m-%d")\<close> drops it. A date of Python's \<open>datetime\<close> lies in the
  proleptic Gregorian calendar between the years 1 and 9999.
\<close>

datatype date = Date (year: int) (month: int) (day: int)

definition is_leap :: "int \<Rightarrow> bool" where
  "is_leap y = (y mod 4 = 0 \<and> (y mod 100 \<noteq> 0 \<or> y mod 400 = 0))"

definition days_in_month :: "int \<Rightarrow> int \<Rightarrow> int" where
  "days_in_month y m =
     (if m = 2 then (if is_leap y then 29 else 28)
      else if m = 4 \<or> m = 6 \<or> m = 9 \<or> m = 11 then 30 else 31)"

definition valid_month_day :: "date \<Rightarrow> bool" where
  "valid_month_day d =
     (1 \<le> month d \<and> month d \<le> 12 \<and> 1 \<le> day d \<and> day d \<le> days_in_month (year d) (month d))"

definition valid_date :: "date \<Rightarrow> bool" where
  "valid_date d = (1 \<le> year d \<and> year d \<le> 9999 \<and> valid_month_day d)"

definition date_le :: "date \<Rightarrow> date \<Rightarrow> bool" where
  "date_le a b =
     (year a < year b \<or>
      (year a = year b \<and> (month a < month b \<or> (month a = month b \<and> day a \<le> day b))))"

fun next_day :: "date \<Rightarrow> date" where
  "next_day (Date y m d) =
     (if d < days_in_month y m then Date y m (d + 1)
      else if m < 12 then Date y (m + 1) 1
      else Date (y + 1) 1 1)"

fun prev_day :: "date \<Rightarrow> date" where
  "prev_day (Date y m d) =
     (if 1 < d then Date y m (d - 1)
      else if 1 < m then Date y (m - 1) (days_in_month y (m - 1))
      else Date (y - 1) 12 31)"

text \<open>The date \<open>n\<close> days after \<open>d\<close> (before it, for negative \<open>n\<close>), in an unbounded calendar.\<close>

definition shift_days :: "date \<Rightarrow> int \<Rightarrow> date" where
  "shift_days d n = (if 0 \<le> n then (next_day ^^ nat n) d else (prev_day ^^ nat (- n)) d)"

text \<open>\<open>d + timedelta(days=n)\<close>: Python raises OverflowError when the result leaves the years 1 to 9999.\<close>

definition date_add :: "date \<Rightarrow> int \<Rightarrow> exn + date" where
  "date_add d n =
     (let r = shift_days d n
      in if 1 \<le> year r \<and> year r \<le> 9999 then Inr r
         else Inl (Exn ''OverflowError'' ''date value out of range''))"

text \<open>\<open>d.replace(year=y, month=m, day=dd)\<close>: ValueError when the fields are not a date.\<close>

definition date_replace :: "int \<Rightarrow> int \<Rightarrow> int \<Rightarrow> exn + date" where
  "date_replace y m dd =
     (if \<not> (1 \<le> y \<and> y \<le> 9999)
        then Inl (ValueError (''year '' @ str_int y @ '' is out of range''))
      else if \<not> (1 \<le> m \<and> m \<le> 12) then Inl (ValueError ''month must be in 1..12'')
      else if \<not> (1 \<le> dd \<and> dd \<le> days_in_month y m)
        then Inl (ValueError ''day is out of range for month'')
      else Inr (Date y m dd))"

text \<open>\<open>d.weekday()\<close>: Monday is 0. It is the proleptic Gregorian ordinal plus 6, modulo 7.\<close>

definition days_before_year :: "int \<Rightarrow> int" where
  "days_before_year y = (y - 1) * 365 + (y - 1) div 4 - (y - 1) div 100 + (y - 1) div 400"

definition days_before_month :: "int \<Rightarrow> int \<Rightarrow> int" where
  "days_before_month y m = (\<Sum>k \<leftarrow> [1..<nat m]. days_in_month y (int k))"

definition toordinal :: "date \<Rightarrow> int" where
  "toordinal d = days_before_year (year d) + days_before_month (year d) (month d) + day d"

definition weekday :: "date \<Rightarrow> int" where
  "weekday d = (toordinal d + 6) mod 7"

text \<open>
  \<open>d.strftime("%Y-%m-%d")\<close>, with the year padded to four digits. For the years before
  1000 the padding of \<open>%Y\<close> is left to the C library of the platform, and some print the
  year without leading zeros; from the year 1000 on the string is the same everywhere.
\<close>

definition zero_pad :: "nat \<Rightarrow> string \<Rightarrow> string" where
  "zero_pad w s = replicate (w - length s) CHR ''0'' @ s"

definition strftime_ymd :: "date \<Rightarrow> string" where
  "strftime_ymd d =
     zero_pad 4 (str_int (year d)) @ ''-'' @ zero_pad 2 (str_int (month d))
       @ ''-'' @ zero_pad 2 (str_int (day d))"

section \<open>Date-range resolver: \<open>get_date_range\<close>\<close>

datatype DateRange =
    THIS_WEEK | LAST_WEEK | THIS_MONTH | LAST_MONTH
  | THIS_QUARTER | LAST_QUARTER | THIS_YEAR | LAST_YEAR

fun DateRange_value :: "DateRange \<Rightarrow> string" where
  "DateRange_value THIS_WEEK = ''this_week''"
| "DateRange_value LAST_WEEK = ''last_week''"
| "DateRange_value THIS_MONTH = ''this_month''"
| "DateRange_value LAST_MONTH = ''last_month''"
| "DateRange_value THIS_QUARTER = ''this_quarter''"
| "DateRange_value LAST_QUARTER = ''last_quarter''"
| "DateRange_value THIS_YEAR = ''this_year''"
| "DateRange_value LAST_YEAR = ''last_year''"

definition DateRange_members :: "DateRange list" where
  "DateRange_members =
     [THIS_WEEK, LAST_WEEK, THIS_MONTH, LAST_MONTH, THIS_QUARTER, LAST_QUARTER, THIS_YEAR, LAST_YEAR]"

text \<open>
  The start and end that \<open>get_date_range\<close> computes before formatting them. The final
  \<open>else: raise ValueError\<close> of the source has no case here: the eight members of the
  enumeration are all handled above it.
\<close>

fun date_range_bounds :: "DateRange \<Rightarrow> date \<Rightarrow> exn + (date \<times> date)" where
  "date_range_bounds THIS_WEEK now =
     bindE (date_add now (- weekday now)) (\<lambda>start.
     bindE (date_add start 6) (\<lambda>fin. Inr (start, fin)))"
| "date_range_bounds LAST_WEEK now =
     bindE (date_add now (- (weekday now + 7))) (\<lambda>start.
     bindE (date_add start 6) (\<lambda>fin. Inr (start, fin)))"
| "date_range_bounds THIS_MONTH now =
     bindE (date_replace (year now) (month now) 1) (\<lambda>start.
     bindE (date_add start 32) (\<lambda>t.
     bindE (date_replace (year t) (month t) 1) (\<lambda>t1.
     bindE (date_add t1 (- 1)) (\<lambda>fin. Inr (start, fin)))))"
| "date_range_bounds LAST_MONTH now =
     bindE (date_replace (year now) (month now) 1) (\<lambda>f.
     bindE (date_add f (- 1)) (\<lambda>l.
     bindE (date_replace (year l) (month l) 1) (\<lambda>start.
     bindE (date_replace (year now) (month now) 1) (\<lambda>f2.
     bindE (date_add f2 (- 1)) (\<lambda>fin. Inr (start, fin))))))"
| "date_range_bounds THIS_QUARTER now =
     (let quarter = (month now - 1) div 3 + 1 in
      bindE (date_replace (year now) ((quarter - 1) * 3 + 1) 1) (\<lambda>start.
      bindE (date_add start 95) (\<lambda>t.
      bindE (date_replace (year t) (month t) 1) (\<lambda>t1.
      bindE (date_add t1 (- 1)) (\<lambda>fin. Inr (start, fin))))))"
| "date_range_bounds LAST_QUARTER now =
     (let quarter = (month now - 1) div 3 in
      bindE (if quarter = 0 then date_replace (year now - 1) 10 1
             else date_replace (year now) ((quarter - 1) * 3 + 1) 1) (\<lambda>start.
      bindE (date_add start 95) (\<lambda>t.
      bindE (date_replace (year t) (month t) 1) (\<lambda>t1.
      bindE (date_add t1 (- 1)) (\<lambda>fin. Inr (start, fin))))))"
| "date_range_bounds THIS_YEAR now =
     bindE (date_replace (year now) 1 1) (\<lambda>start.
     bindE (date_replace (year now) 12 31) (\<lambda>fin. Inr (start, fin)))"
| "date_range_bounds LAST_YEAR now =
     bindE (date_replace (year now - 1) 1 1) (\<lambda>start.
     bindE (date_replace (year now - 1) 12 31) (\<lambda>fin. Inr (start, fin)))"

definition get_date_range :: "DateRange \<Rightarrow> date \<Rightarrow> exn + (string \<times> string)" where
  "get_date_range range_type now =
     bindE (date_range_bounds range_type now) (\<lambda>(start, fin).
       Inr (strftime_ymd start, strftime_ymd fin))"

section \<open>The environment of a call\<close>

text \<open>
  Everything a tool reads from outside is a field of the \<open>world\<close> it runs in:
  \<^item> \<open>respond\<close>: what the HTTP POST of a query document and its variables comes back with;
  \<^item> \<open>float_str\<close>: Python's \<open>str\<close> of a float, \<open>repr_of\<close>: its \<open>str\<close> of a list or dictionary,
    as used inside f-strings;
  \<^item> \<open>float_of_str\<close>, \<open>int_of_str\<close>: \<open>float(s)\<close> and \<open>int(s)\<close> on a string, \<open>None\<close> when
    Python raises ValueError;
  \<^item> \<open>today\<close>: the date of \<open>datetime.now()\<close>; \<open>utcnow_iso\<close>: \<open>datetime.utcnow().isoformat()\<close>.
\<close>

datatype http_outcome =
    PostRaised exn
  | Response (status_code: nat) (body_text: string) (parsed_json: "exn + pyval")

record world =
  respond :: "string \<Rightarrow> pyval \<Rightarrow> http_outcome"
  float_str :: "rat \<Rightarrow> string"
  repr_of :: "pyval \<Rightarrow> string"
  float_of_str :: "string \<Rightarrow> rat option"
  int_of_str :: "string \<Rightarrow> int option"
  today :: date
  utcnow_iso :: string

text \<open>\<open>str(v)\<close>, the text an f-string puts for \<open>{v}\<close>.\<close>

fun py_str :: "world \<Rightarrow> pyval \<Rightarrow> string" where
  "py_str W (PStr s) = s"
| "py_str W (PInt i) = str_int i"
| "py_str W PNone = ''None''"
| "py_str W (PBool b) = (if b then ''True'' else ''False'')"
| "py_str W (PFloat r) = float_str W r"
| "py_str W v = repr_of W v"

text \<open>
  \<open>float(v)\<close> and \<open>int(v)\<close>. An integer is converted to the nearest double, and
  \<open>float\<close> raises OverflowError when that is beyond the largest one: from
  \<open>2\<^sup>1\<^sup>0\<^sup>2\<^sup>4 - 2\<^sup>9\<^sup>7\<^sup>0\<close> on, in absolute value.
\<close>

definition float_overflows :: "int \<Rightarrow> bool" where
  "float_overflows i = (2 ^ 1024 - 2 ^ 970 \<le> \<bar>i\<bar>)"

fun py_float :: "world \<Rightarrow> pyval \<Rightarrow> exn + rat" where
  "py_float W (PInt i) =
     (if float_overflows i then Inl (Exn ''OverflowError'' ''int too large to convert to float'')
      else Inr (of_int i))"
| "py_float W (PFloat r) = Inr r"
| "py_float W (PBool b) = Inr (if b then 1 else 0)"
| "py_float W (PStr s) =
     (case float_of_str W s of
        Some r \<Rightarrow> Inr r
      | None \<Rightarrow> Inl (ValueError (''could not convert string to float: '' @ sq @ s @ sq)))"
| "py_float W v =
     Inl (TypeError (''float() argument must be a string or a real number, not ''
                     @ sq @ type_name v @ sq))"

fun py_int :: "world \<Rightarrow> pyval \<Rightarrow> exn + int" where
  "py_int W (PInt i) = Inr i"
| "py_int W (PFloat r) = Inr (if 0 \<le> r then \<lfloor>r\<rfloor> else \<lceil>r\<rceil>)"
| "py_int W (PBool b) = Inr (if b then 1 else 0)"
| "py_int W (PStr s) =
     (case int_of_str W s of
        Some i \<Rightarrow> Inr i
      | None \<Rightarrow> Inl (ValueError (''invalid literal for int() with base 10: '' @ sq @ s @ sq)))"
| "py_int W v =
     Inl (TypeError (''int() argument must be a string, a bytes-like object or a real number, not ''
                     @ sq @ type_name v @ sq))"

section \<open>Transport: \<open>SalesforceClient.execute_query\<close>\<close>

text \<open>
  One HTTP POST is the only effect of \<open>execute_query\<close>. Either \<open>client.post\<close> raised
  (network failure, timeout), or a response arrived, with its status code, its text and
  what \<open>response.json()\<close> makes of the text (an exception when the text is not JSON).
  Logging has no effect on results and is left out.

  \<open>response.raise_for_status()\<close> of httpx returns normally exactly for a 2xx status.
\<close>

definition is_success :: "nat \<Rightarrow> bool" where
  "is_success status = (200 \<le> status \<and> status < 300)"

text \<open>The body of the loop over \<open>data["errors"]\<close>: the message of one error entry.\<close>

definition error_message :: "world \<Rightarrow> pyval \<Rightarrow> exn + pyval" where
  "error_message W error =
     bindE (py_get error ''message'' (PStr ''Unknown GraphQL error'')) (\<lambda>message.
     bindE (py_get error ''extensions'' (PDict [])) (\<lambda>extensions.
     bindE (py_get extensions ''classification'' (PStr [])) (\<lambda>classification.
       Inr (if truthy classification
            then PStr (py_str W message @ '' (Classification: '' @ py_str W classification @ '')'')
            else message))))"

definition execute_query :: "world \<Rightarrow> string \<Rightarrow> pyval \<Rightarrow> exn + pyval" where
  "execute_query W query variables =
     (case respond W query (py_or variables (PDict [])) of
        PostRaised e \<Rightarrow> Inl e
      | Response status txt parsed \<Rightarrow>
          if \<not> is_success status
          then Inl (Exception (''API request failed: '' @ str_nat status))
          else
            bindE parsed (\<lambda>data.
            bindE (py_get data ''errors'' PNone) (\<lambda>errors.
              if truthy errors then
                bindE (py_iter errors) (\<lambda>errs.
                bindE (mapE (error_message W) errs) (\<lambda>error_messages.
                bindE (py_join ''; '' error_messages) (\<lambda>full_error_msg.
                  Inl (Exception (''GraphQL errors: '' @ full_error_msg)))))
              else Inr data)))"

text \<open>
  \<open>result.get("data", {}).get("uiapi", {}).get("query", {}).get(entity, {})\<close>, the
  connection object of an entity, and its \<open>edges\<close> (default \<open>[]\<close>) and \<open>totalCount\<close>
  (default \<open>0\<close>).
\<close>

definition connection :: "pyval \<Rightarrow> string \<Rightarrow> exn + pyval" where
  "connection result entity =
     bindE (py_get result ''data'' (PDict [])) (\<lambda>d.
     bindE (py_get d ''uiapi'' (PDict [])) (\<lambda>u.
     bindE (py_get u ''query'' (PDict [])) (\<lambda>q.
       py_get q entity (PDict []))))"

definition edges_of :: "pyval \<Rightarrow> string \<Rightarrow> exn + pyval" where
  "edges_of result entity = bindE (connection result entity) (\<lambda>c. py_get c ''edges'' (PList []))"

definition total_count_of :: "pyval \<Rightarrow> string \<Rightarrow> exn + pyval" where
  "total_count_of result entity =
     bindE (connection result entity) (\<lambda>c. py_get c ''totalCount'' (PInt 0))"

section \<open>The pydantic models of \<open>models.py\<close>\<close>

text \<open>
  A model instance is a record of its declared fields. A field of type
  \<open>Optional[str]\<close> holds \<open>PNone\<close> or a string, one of type \<open>Optional[Dict[str, Any]]\<close> holds
  \<open>PNone\<close> or a dictionary, a nested model is optional. \<open>Model(**data)\<close> takes each
  declared field from \<open>data\<close>, \<open>None\<close> when the key is absent, ignores the other keys, and
  raises ValidationError when a value has the wrong type (of that exception the model keeps
  the name of the class only).
\<close>

record OpportunityAccount =
  oa_Id :: pyval
  oa_Name :: pyval

record OpportunityOwner =
  oo_Id :: pyval
  oo_Name :: pyval

record Opportunity =
  opp_Id :: pyval
  opp_Name :: pyval
  opp_Amount :: pyval
  opp_CloseDate :: pyval
  opp_StageName :: pyval
  opp_Probability :: pyval
  opp_Description :: pyval
  opp_Type :: pyval
  opp_LeadSource :: pyval
  opp_Account :: "OpportunityAccount option"
  opp_Owner :: "OpportunityOwner option"

record AccountBillingAddress =
  ba_BillingCity :: pyval
  ba_BillingState :: pyval
  ba_BillingCountry :: pyval

record Account =
  acc_Id :: pyval
  acc_Name :: pyval
  acc_Type :: pyval
  acc_Industry :: pyval
  acc_AnnualRevenue :: pyval
  acc_NumberOfEmployees :: pyval
  acc_Phone :: pyval
  acc_Website :: pyval
  acc_BillingAddress :: "AccountBillingAddress option"

definition ValidationError :: "string \<Rightarrow> exn" where
  "ValidationError cls = Exn ''ValidationError'' (''validation error for '' @ cls)"

fun is_str :: "pyval \<Rightarrow> bool" where
  "is_str (PStr s) = True"
| "is_str v = False"

text \<open>The keyword arguments of \<open>Model(**data)\<close>.\<close>

fun kwargs :: "string \<Rightarrow> pyval \<Rightarrow> exn + (pyval \<times> pyval) list" where
  "kwargs cls (PDict kvs) =
     (if list_all is_str (map fst kvs) then Inr kvs
      else Inl (TypeError ''keywords must be strings''))"
| "kwargs cls v =
     Inl (TypeError (cls @ ''() argument after ** must be a mapping, not '' @ type_name v))"

definition field :: "(pyval \<times> pyval) list \<Rightarrow> string \<Rightarrow> pyval" where
  "field kvs name = (case map_of kvs (PStr name) of Some v \<Rightarrow> v | None \<Rightarrow> PNone)"

fun opt_str :: "string \<Rightarrow> pyval \<Rightarrow> exn + pyval" where
  "opt_str cls PNone = Inr PNone"
| "opt_str cls (PStr s) = Inr (PStr s)"
| "opt_str cls v = Inl (ValidationError cls)"

fun opt_dict :: "string \<Rightarrow> pyval \<Rightarrow> exn + pyval" where
  "opt_dict cls PNone = Inr PNone"
| "opt_dict cls (PDict kvs) =
     (if list_all is_str (map fst kvs) then Inr (PDict kvs) else Inl (ValidationError cls))"
| "opt_dict cls v = Inl (ValidationError cls)"

fun opt_model :: "string \<Rightarrow> ((pyval \<times> pyval) list \<Rightarrow> exn + 'm) \<Rightarrow> pyval \<Rightarrow> exn + 'm option" where
  "opt_model cls mk PNone = Inr None"
| "opt_model cls mk (PDict kvs) =
     (if list_all is_str (map fst kvs) then bindE (mk kvs) (\<lambda>m. Inr (Some m))
      else Inl (ValidationError cls))"
| "opt_model cls mk v = Inl (ValidationError cls)"

definition fields_OpportunityAccount :: "string \<Rightarrow> (pyval \<times> pyval) list \<Rightarrow> exn + OpportunityAccount" where
  "fields_OpportunityAccount cls kvs =
     bindE (opt_str cls (field kvs ''Id'')) (\<lambda>i.
     bindE (opt_dict cls (field kvs ''Name'')) (\<lambda>n.
       Inr \<lparr>oa_Id = i, oa_Name = n\<rparr>))"

definition fields_OpportunityOwner :: "string \<Rightarrow> (pyval \<times> pyval) list \<Rightarrow> exn + OpportunityOwner" where
  "fields_OpportunityOwner cls kvs =
     bindE (opt_str cls (field kvs ''Id'')) (\<lambda>i.
     bindE (opt_dict cls (field kvs ''Name'')) (\<lambda>n.
       Inr \<lparr>oo_Id = i, oo_Name = n\<rparr>))"

definition fields_AccountBillingAddress :: "string \<Rightarrow> (pyval \<times> pyval) list \<Rightarrow> exn + AccountBillingAddress" where
  "fields_AccountBillingAddress cls kvs =
     bindE (opt_dict cls (field kvs ''BillingCity'')) (\<lambda>c.
     bindE (opt_dict cls (field kvs ''BillingState'')) (\<lambda>s.
     bindE (opt_dict cls (field kvs ''BillingCountry'')) (\<lambda>k.
       Inr \<lparr>ba_BillingCity = c, ba_BillingState = s, ba_BillingCountry = k\<rparr>)))"

text \<open>\<open>Opportunity(**opportunity_data)\<close> and \<open>Account(**account_data)\<close>.\<close>

definition new_Opportunity :: "pyval \<Rightarrow> exn + Opportunity" where
  "new_Opportunity opportunity_data =
     bindE (kwargs ''Opportunity'' opportunity_data) (\<lambda>kvs.
     bindE (opt_str ''Opportunity'' (field kvs ''Id'')) (\<lambda>i.
     bindE (opt_dict ''Opportunity'' (field kvs ''Name'')) (\<lambda>n.
     bindE (opt_dict ''Opportunity'' (field kvs ''Amount'')) (\<lambda>a.
     bindE (opt_dict ''Opportunity'' (field kvs ''CloseDate'')) (\<lambda>c.
     bindE (opt_dict ''Opportunity'' (field kvs ''StageName'')) (\<lambda>s.
     bindE (opt_dict ''Opportunity'' (field kvs ''Probability'')) (\<lambda>p.
     bindE (opt_dict ''Opportunity'' (field kvs ''Description'')) (\<lambda>d.
     bindE (opt_dict ''Opportunity'' (field kvs ''Type'')) (\<lambda>t.
     bindE (opt_dict ''Opportunity'' (field kvs ''LeadSource'')) (\<lambda>l.
     bindE (opt_model ''Opportunity'' (fields_OpportunityAccount ''Opportunity'')
              (field kvs ''Account'')) (\<lambda>acct.
     bindE (opt_model ''Opportunity'' (fields_OpportunityOwner ''Opportunity'')
              (field kvs ''Owner'')) (\<lambda>ownr.
       Inr \<lparr>opp_Id = i, opp_Name = n, opp_Amount = a, opp_CloseDate = c, opp_StageName = s,
            opp_Probability = p, opp_Description = d, opp_Type = t, opp_LeadSource = l,
            opp_Account = acct, opp_Owner = ownr\<rparr>))))))))))))"

definition new_Account :: "pyval \<Rightarrow> exn + Account" where
  "new_Account account_data =
     bindE (kwargs ''Account'' account_data) (\<lambda>kvs.
     bindE (opt_str ''Account'' (field kvs ''Id'')) (\<lambda>i.
     bindE (opt_dict ''Account'' (field kvs ''Name'')) (\<lambda>n.
     bindE (opt_dict ''Account'' (field kvs ''Type'')) (\<lambda>t.
     bindE (opt_dict ''Account'' (field kvs ''Industry'')) (\<lambda>ind.
     bindE (opt_dict ''Account'' (field kvs ''AnnualRevenue'')) (\<lambda>r.
     bindE (opt_dict ''Account'' (field kvs ''NumberOfEmployees'')) (\<lambda>e.
     bindE (opt_dict ''Account'' (field kvs ''Phone'')) (\<lambda>ph.
     bindE (opt_dict ''Account'' (field kvs ''Website'')) (\<lambda>w.
     bindE (opt_model ''Account'' (fields_AccountBillingAddress ''Account'')
              (field kvs ''BillingAddress'')) (\<lambda>b.
       Inr \<lparr>acc_Id = i, acc_Name = n, acc_Type = t, acc_Industry = ind, acc_AnnualRevenue = r,
            acc_NumberOfEmployees = e, acc_Phone = ph, acc_Website = w,
            acc_BillingAddress = b\<rparr>))))))))))"

section \<open>The client methods of \<open>client.py\<close>\<close>

definition nl :: string where
  "nl = [CHR 0x0A]"

definition get_opportunity_query :: string where
  "get_opportunity_query = concat
     [nl, ''        query GetOpportunity($opportunityId: ID!) {'', nl, ''            uiapi {'',
      nl, ''                query {'', nl,
      ''                    Opportunity(where: { Id: { eq: $opportunityId } }) {'', nl,
      ''                        edges {'', nl, ''                            node {'', nl,
      ''                                Id'', nl,
      ''                                Name { value }'', nl,
      ''                                Amount { value displayValue }'', nl,
      ''                                CloseDate { value }'', nl,
      ''                                StageName { value }'', nl,
      ''                                Probability { value }'', nl,
      ''                                Description { value }'', nl,
      ''                                Type { value }'', nl,
      ''                                LeadSource { value }'', nl,
      ''                                Account {'', nl,
      ''                                    Id'', nl,
      ''                                    Name { value }'', nl,
      ''                                }'', nl, ''                                Owner {'',
      nl, ''                                    Id'', nl,
      ''                                    Name { value }'', nl,
      ''                                }'', nl, ''                            }'', nl,
      ''                        }'', nl, ''                    }'', nl, ''                }'',
      nl, ''            }'', nl, ''        }'', nl, ''        '']"

text \<open>
  \<open>edges[0]\<close>, reached only when \<open>edges\<close> is truthy. A dictionary parsed from JSON has
  string keys only, so that the key \<open>0\<close> is missing from it.
\<close>

fun py_first :: "pyval \<Rightarrow> exn + pyval" where
  "py_first (PList (x # xs)) = Inr x"
| "py_first (PList []) = Inl (Exn ''IndexError'' ''list index out of range'')"
| "py_first (PStr (c # cs)) = Inr (PStr [c])"
| "py_first (PStr []) = Inl (Exn ''IndexError'' ''string index out of range'')"
| "py_first (PDict kvs) = Inl (Exn ''KeyError'' ''0'')"
| "py_first v = Inl (TypeError (sq @ type_name v @ sq @ '' object is not subscriptable''))"

text \<open>
  Each method catches every exception only to log it and raise it again, so that the
  exception of the body is the exception of the method. The client methods carry the
  prefix \<open>client_\<close>; the tools that call them have the plain names.
\<close>

definition client_get_opportunity :: "world \<Rightarrow> string \<Rightarrow> exn + Opportunity option" where
  "client_get_opportunity W opportunity_id =
     bindE (execute_query W get_opportunity_query
              (PDict [(PStr ''opportunityId'', PStr opportunity_id)])) (\<lambda>result.
     bindE (edges_of result ''Opportunity'') (\<lambda>edges.
       if truthy edges then
         bindE (py_first edges) (\<lambda>edge.
         bindE (py_index edge ''node'') (\<lambda>opportunity_data.
         bindE (new_Opportunity opportunity_data) (\<lambda>opp. Inr (Some opp))))
       else Inr None))"

definition search_opportunities_query :: "int \<Rightarrow> string" where
  "search_opportunities_query limit = concat
     [nl, ''        query SearchOpportunities {'', nl, ''            uiapi {'', nl,
      ''                query {'', nl, ''                    Opportunity('', nl,
      ''                        first: '', str_int limit, nl,
      ''                        orderBy: { LastModifiedDate: { order: DESC } }'', nl,
      ''                    ) {'', nl, ''                        edges {'', nl,
      ''                            node {'', nl, ''                                Id'', nl,
      ''                                Name { value }'', nl,
      ''                                Amount { value displayValue }'', nl,
      ''                                CloseDate { value }'', nl,
      ''                                StageName { value }'', nl,
      ''                                Probability { value }'', nl,
      ''                                Account {'', nl,
      ''                                    Id'', nl,
      ''                                    Name { value }'', nl,
      ''                                }'', nl, ''                                Owner {'',
      nl, ''                                    Id'', nl,
      ''                                    Name { value }'', nl,
      ''                                }'', nl, ''                            }'', nl,
      ''                        }'', nl, ''                        totalCount'', nl,
      ''                    }'', nl, ''                }'', nl, ''            }'', nl,
      ''        }'', nl, ''        '']"

definition client_search_opportunities ::
    "world \<Rightarrow> string option \<Rightarrow> rat option \<Rightarrow> int \<Rightarrow> exn + Opportunity list" where
  "client_search_opportunities W stage min_amount limit =
     bindE (execute_query W (search_opportunities_query limit) PNone) (\<lambda>result.
     bindE (edges_of result ''Opportunity'') (\<lambda>edges.
     bindE (py_iter edges) (\<lambda>es.
       mapE (\<lambda>edge. bindE (py_index edge ''node'') new_Opportunity) es)))"

definition search_accounts_query :: "int \<Rightarrow> string" where
  "search_accounts_query limit = concat
     [nl, ''        query SearchAccounts {'', nl, ''            uiapi {'', nl,
      ''                query {'', nl, ''                    Account('', nl,
      ''                        first: '', str_int limit, nl,
      ''                        orderBy: { Name: { order: ASC } }'', nl,
      ''                    ) {'', nl, ''                        edges {'', nl,
      ''                            node {'', nl, ''                                Id'', nl,
      ''                                Name { value }'', nl,
      ''                                Type { value }'', nl,
      ''                                Industry { value }'', nl,
      ''                                AnnualRevenue { value displayValue }'', nl,
      ''                                NumberOfEmployees { value }'', nl,
      ''                                Phone { value }'', nl,
      ''                                Website { value }'', nl,
      ''                            }'', nl, ''                        }'', nl,
      ''                        totalCount'', nl, ''                    }'', nl,
      ''                }'', nl, ''            }'', nl, ''        }'', nl, ''        '']"

definition client_search_accounts :: "world \<Rightarrow> string option \<Rightarrow> int \<Rightarrow> exn + Account list" where
  "client_search_accounts W industry limit =
     bindE (execute_query W (search_accounts_query limit) PNone) (\<lambda>result.
     bindE (edges_of result ''Account'') (\<lambda>edges.
     bindE (py_iter edges) (\<lambda>es.
       mapE (\<lambda>edge. bindE (py_index edge ''node'') new_Account) es)))"

definition get_recent_accounts_query :: "int \<Rightarrow> string" where
  "get_recent_accounts_query limit = concat
     [nl, ''        query GetRecentAccounts {'', nl, ''            uiapi {'', nl,
      ''                query {'', nl, ''                    Account('', nl,
      ''                        first: '', str_int limit, nl,
      ''                        orderBy: { LastModifiedDate: { order: DESC } }'', nl,
      ''                    ) {'', nl, ''                        edges {'', nl,
      ''                            node {'', nl, ''                                Id'', nl,
      ''                                Name { value }'', nl,
      ''                                Type { value }'', nl,
      ''                                Industry { value }'', nl,
      ''                                AnnualRevenue { value displayValue }'', nl,
      ''                                NumberOfEmployees { value }'', nl,
      ''                            }'', nl, ''                        }'', nl,
      ''                    }'', nl, ''                }'', nl, ''            }'', nl,
      ''        }'', nl, ''        '']"

definition client_get_recent_accounts :: "world \<Rightarrow> int \<Rightarrow> exn + Account list" where
  "client_get_recent_accounts W limit =
     bindE (execute_query W (get_recent_accounts_query limit) PNone) (\<lambda>result.
     bindE (edges_of result ''Account'') (\<lambda>edges.
     bindE (py_iter edges) (\<lambda>es.
       mapE (\<lambda>edge. bindE (py_index edge ''node'') new_Account) es)))"

section \<open>Helpers shared by the tools\<close>

text \<open>\<open>node.get(a, {}).get(b, dflt)\<close> and \<open>node.get(a, {}).get(b, {}).get(c, dflt)\<close>.\<close>

definition get2 :: "pyval \<Rightarrow> string \<Rightarrow> string \<Rightarrow> pyval \<Rightarrow> exn + pyval" where
  "get2 node a b dflt = bindE (py_get node a (PDict [])) (\<lambda>w. py_get w b dflt)"

definition get3 :: "pyval \<Rightarrow> string \<Rightarrow> string \<Rightarrow> string \<Rightarrow> pyval \<Rightarrow> exn + pyval" where
  "get3 node a b c dflt =
     bindE (py_get node a (PDict [])) (\<lambda>w.
     bindE (py_get w b (PDict [])) (\<lambda>x. py_get x c dflt))"

text \<open>
  The payload of every \<open>except Exception as e\<close> handler of the tools:
  \<open>{"success": False, "error": str(e), "error_type": type(e).__name__}\<close>.
\<close>

definition error_payload :: "exn \<Rightarrow> pyval" where
  "error_payload e =
     PDict [(PStr ''success'', PBool False),
            (PStr ''error'', PStr (exn_str e)),
            (PStr ''error_type'', PStr (exn_type e))]"

text \<open>A numeric accumulator after \<open>acc += x\<close> for a float \<open>x\<close>: the sum is a float.\<close>

fun num_val :: "pyval \<Rightarrow> rat option" where
  "num_val (PInt i) = Some (of_int i)"
| "num_val (PFloat r) = Some r"
| "num_val (PBool b) = Some (if b then 1 else 0)"
| "num_val v = None"

text \<open>
  \<open>a + b\<close> on numbers (a Boolean counts as 0 or 1): an integer when both are integers, a
  float otherwise; TypeError on anything else.
\<close>

fun is_intlike :: "pyval \<Rightarrow> bool" where
  "is_intlike (PInt i) = True"
| "is_intlike (PBool b) = True"
| "is_intlike v = False"

definition py_add :: "pyval \<Rightarrow> pyval \<Rightarrow> exn + pyval" where
  "py_add a b =
     (case (num_val a, num_val b) of
        (Some x, Some y) \<Rightarrow>
          Inr (if is_intlike a \<and> is_intlike b then PInt (\<lfloor>x\<rfloor> + \<lfloor>y\<rfloor>) else PFloat (x + y))
      | _ \<Rightarrow>
          Inl (TypeError (''unsupported operand type(s) for +=: '' @ sq @ type_name a @ sq
                          @ '' and '' @ sq @ type_name b @ sq)))"

text \<open>
  Dictionary keys: lists and dictionaries are unhashable; numbers are equal as keys
  when they are equal as numbers (\<open>1\<close>, \<open>1.0\<close> and \<open>True\<close> are one key).
\<close>

fun hashable :: "pyval \<Rightarrow> bool" where
  "hashable (PList xs) = False"
| "hashable (PDict kvs) = False"
| "hashable v = True"

definition unhashable :: "pyval \<Rightarrow> exn" where
  "unhashable v = TypeError (''unhashable type: '' @ sq @ type_name v @ sq)"

definition key_eq :: "pyval \<Rightarrow> pyval \<Rightarrow> bool" where
  "key_eq a b =
     (case (num_val a, num_val b) of
        (Some x, Some y) \<Rightarrow> x = y
      | (None, None) \<Rightarrow> a = b
      | _ \<Rightarrow> False)"

text \<open>
  A breakdown \<open>{key: {"count": c, "value": v}}\<close> as the list of its entries in insertion
  order, and the three statements that update it for one record:
  \<open>if key not in d: d[key] = {"count": 0, "value": 0}\<close>, \<open>d[key]["count"] += 1\<close>,
  \<open>d[key]["value"] += amount\<close>.
\<close>

fun bump :: "pyval \<Rightarrow> rat \<Rightarrow> (pyval \<times> int \<times> rat) list \<Rightarrow> (pyval \<times> int \<times> rat) list" where
  "bump k a [] = [(k, 1, a)]"
| "bump k a ((k', c, v) # rest) =
     (if key_eq k' k then (k', c + 1, v + a) # rest else (k', c, v) # bump k a rest)"

definition breakdown_add ::
    "pyval \<Rightarrow> rat \<Rightarrow> (pyval \<times> int \<times> rat) list \<Rightarrow> exn + (pyval \<times> int \<times> rat) list" where
  "breakdown_add k a d = (if hashable k then Inr (bump k a d) else Inl (unhashable k))"

definition breakdown_dict :: "(pyval \<times> int \<times> rat) list \<Rightarrow> pyval" where
  "breakdown_dict d =
     PDict (map (\<lambda>(k, c, v). (k, PDict [(PStr ''count'', PInt c), (PStr ''value'', PFloat v)])) d)"

text \<open>\<open>dict(Counter(items))\<close>: the number of occurrences of each item, in order of first occurrence.\<close>

fun count_item :: "pyval \<Rightarrow> (pyval \<times> int) list \<Rightarrow> (pyval \<times> int) list" where
  "count_item k [] = [(k, 1)]"
| "count_item k ((k', c) # rest) =
     (if key_eq k' k then (k', c + 1) # rest else (k', c) # count_item k rest)"

definition counter_dict :: "pyval list \<Rightarrow> exn + pyval" where
  "counter_dict items =
     bindE (foldE (\<lambda>k d. if hashable k then Inr (count_item k d) else Inl (unhashable k)) items [])
       (\<lambda>d. Inr (PDict (map (\<lambda>(k, c). (k, PInt c)) d)))"

text \<open>
  \<open>round(x, n)\<close> on a float: to the nearest multiple of \<open>10\<^sup>-\<^sup>n\<close>, a tie going to the even one.
\<close>

definition round_half_even :: "rat \<Rightarrow> int" where
  "round_half_even x =
     (let f = \<lfloor>x\<rfloor>; d = x - of_int f
      in if d < 1 / 2 then f else if 1 / 2 < d then f + 1 else if even f then f else f + 1)"

definition py_round :: "rat \<Rightarrow> nat \<Rightarrow> rat" where
  "py_round x n = of_int (round_half_even (x * 10 ^ n)) / 10 ^ n"

text \<open>\<open>sorted(xs)[len(xs)//2]\<close>, the median as the tools compute it, for a non-empty list.\<close>

definition sorted_middle :: "'a::linorder list \<Rightarrow> 'a" where
  "sorted_middle xs = sort xs ! (length xs div 2)"

section \<open>The opportunity tools of \<open>tools/opportunities.py\<close>\<close>

text \<open>
  A tool returns \<open>Inr\<close> of what it hands to its caller, and \<open>Inl e\<close> when the exception
  \<open>e\<close> leaves the tool. \<open>get_salesforce_client()\<close> returns the client of the process, which
  exists once the server has started.
\<close>

definition get_opportunity :: "world \<Rightarrow> string \<Rightarrow> exn + Opportunity option" where
  "get_opportunity W opportunity_id = client_get_opportunity W opportunity_id"

definition search_opportunities ::
    "world \<Rightarrow> string \<Rightarrow> rat option \<Rightarrow> int \<Rightarrow> exn + Opportunity list" where
  "search_opportunities W stage min_amount limit =
     (let stage_filter = (if stage \<noteq> [] then Some stage else None)
      in client_search_opportunities W stage_filter min_amount limit)"

text \<open>\<open>time_period.lower().replace(" ", "_")\<close> and the lookup \<open>DateRange(value)\<close>.\<close>

definition lower_char :: "char \<Rightarrow> char" where
  "lower_char c =
     (if 65 \<le> (of_char c :: nat) \<and> (of_char c :: nat) \<le> 90 then char_of ((of_char c :: nat) + 32) else c)"

definition py_lower :: "string \<Rightarrow> string" where
  "py_lower s = map lower_char s"

definition replace_space :: "string \<Rightarrow> string" where
  "replace_space s = map (\<lambda>c. if c = CHR '' '' then CHR ''_'' else c) s"

definition DateRange_of :: "string \<Rightarrow> exn + DateRange" where
  "DateRange_of v =
     (case find (\<lambda>r. DateRange_value r = v) DateRange_members of
        Some r \<Rightarrow> Inr r
      | None \<Rightarrow> Inl (ValueError (sq @ v @ sq @ '' is not a valid DateRange'')))"

text \<open>The body of the \<open>try\<close> that resolves the period: the condition on \<open>CloseDate\<close>.\<close>

definition close_date_condition :: "world \<Rightarrow> string \<Rightarrow> exn + string" where
  "close_date_condition W time_period =
     bindE (DateRange_of (replace_space (py_lower time_period))) (\<lambda>date_range.
     bindE (get_date_range date_range (today W)) (\<lambda>(start_date, end_date).
       Inr (''CloseDate: { range: { gte: '' @ dq @ start_date @ dq @ '', lte: '' @ dq @ end_date
            @ dq @ '' } }'')))"

definition invalid_period_payload :: "string \<Rightarrow> pyval" where
  "invalid_period_payload time_period =
     PDict [(PStr ''error'', PStr (''Invalid time period: '' @ time_period)),
            (PStr ''valid_options'', PList (map (\<lambda>r. PStr (DateRange_value r)) DateRange_members))]"

definition stage_condition :: "string \<Rightarrow> string" where
  "stage_condition stage = ''StageName: { eq: '' @ dq @ stage @ dq @ '' }''"

definition amount_condition :: "world \<Rightarrow> rat \<Rightarrow> string" where
  "amount_condition W min_amount = ''Amount: { range: { gte: '' @ float_str W min_amount @ '' } }''"

definition where_clause_of :: "string list \<Rightarrow> string" where
  "where_clause_of conditions =
     (if conditions \<noteq> [] then ''where: { '' @ join_strs '', '' conditions @ '' }'' else [])"

definition query_opportunities_query :: "string \<Rightarrow> int \<Rightarrow> string" where
  "query_opportunities_query where_clause limit = concat
     [nl, ''        query GetOpportunities {'', nl, ''            uiapi {'', nl,
      ''                query {'', nl, ''                    Opportunity('', nl,
      ''                        '', where_clause, nl, ''                        first: '',
      str_int limit, nl,
      ''                        orderBy: { CloseDate: { order: DESC } }'', nl,
      ''                    ) {'', nl, ''                        edges {'', nl,
      ''                            node {'', nl, ''                                Id'', nl,
      ''                                Name { value }'', nl,
      ''                                Amount { value displayValue }'', nl,
      ''                                CloseDate { value }'', nl,
      ''                                StageName { value }'', nl,
      ''                                Probability { value }'', nl,
      ''                                Account {'', nl,
      ''                                    Id'', nl,
      ''                                    Name { value }'', nl,
      ''                                }'', nl, ''                                Owner {'',
      nl, ''                                    Id'', nl,
      ''                                    Name { value }'', nl,
      ''                                }'', nl, ''                            }'', nl,
      ''                        }'', nl, ''                        totalCount'', nl,
      ''                        pageInfo {'', nl, ''                            hasNextPage'',
      nl, ''                            endCursor'', nl, ''                        }'', nl,
      ''                    }'', nl, ''                }'', nl, ''            }'', nl,
      ''        }'', nl, ''        '']"

text \<open>One pass of the loop over the edges: the flat record, and the running total.\<close>

definition query_opportunities_step :: "pyval \<Rightarrow> pyval list \<times> pyval \<Rightarrow> exn + pyval list \<times> pyval" where
  "query_opportunities_step edge acc =
     (case acc of (opportunities, total_value) \<Rightarrow>
     bindE (py_get edge ''node'' (PDict [])) (\<lambda>node.
     bindE (get2 node ''Amount'' ''value'' (PInt 0)) (\<lambda>av.
     let amount = py_or av (PInt 0) in
     bindE (py_get node ''Id'' PNone) (\<lambda>i.
     bindE (get2 node ''Name'' ''value'' (PStr [])) (\<lambda>name.
     bindE (get2 node ''Amount'' ''displayValue'' (PStr [])) (\<lambda>amount_display.
     bindE (get2 node ''CloseDate'' ''value'' (PStr [])) (\<lambda>close_date.
     bindE (get2 node ''StageName'' ''value'' (PStr [])) (\<lambda>stage.
     bindE (get2 node ''Probability'' ''value'' (PInt 0)) (\<lambda>probability.
     bindE (get2 node ''Account'' ''Id'' PNone) (\<lambda>account_id.
     bindE (get3 node ''Account'' ''Name'' ''value'' (PStr [])) (\<lambda>account_name.
     bindE (get2 node ''Owner'' ''Id'' PNone) (\<lambda>owner_id.
     bindE (get3 node ''Owner'' ''Name'' ''value'' (PStr [])) (\<lambda>owner_name.
     let opp = PDict
           [(PStr ''id'', i),
            (PStr ''name'', name),
            (PStr ''amount'', amount),
            (PStr ''amount_display'', amount_display),
            (PStr ''close_date'', close_date),
            (PStr ''stage'', stage),
            (PStr ''probability'', probability),
            (PStr ''account'', PDict [(PStr ''id'', account_id), (PStr ''name'', account_name)]),
            (PStr ''owner'', PDict [(PStr ''id'', owner_id), (PStr ''name'', owner_name)])] in
     bindE (py_add total_value amount) (\<lambda>total_value'.
       Inr (opportunities @ [opp], total_value')))))))))))))))"

text \<open>\<open>total / n if n else 0\<close>, the guarded mean: true division gives a float.\<close>

definition mean_or_zero :: "pyval \<Rightarrow> nat \<Rightarrow> pyval" where
  "mean_or_zero acc n =
     (if n = 0 then PInt 0
      else (case num_val acc of Some t \<Rightarrow> PFloat (t / of_nat n) | None \<Rightarrow> PInt 0))"

fun opt_float :: "rat option \<Rightarrow> pyval" where
  "opt_float None = PNone"
| "opt_float (Some r) = PFloat r"

definition query_opportunities_body ::
    "world \<Rightarrow> string \<Rightarrow> string \<Rightarrow> string \<Rightarrow> rat option \<Rightarrow> int \<Rightarrow> exn + pyval" where
  "query_opportunities_body W query time_period stage min_amount limit =
     bindE (execute_query W query PNone) (\<lambda>result.
     bindE (edges_of result ''Opportunity'') (\<lambda>edges.
     bindE (total_count_of result ''Opportunity'') (\<lambda>total_count.
     bindE (py_iter edges) (\<lambda>es.
     bindE (foldE query_opportunities_step es ([], PInt 0)) (\<lambda>(opportunities, total_value).
       Inr (PDict
         [(PStr ''success'', PBool True),
          (PStr ''summary'', PDict
             [(PStr ''total_opportunities'', PInt (int (length opportunities))),
              (PStr ''total_count_in_org'', total_count),
              (PStr ''total_value'', total_value),
              (PStr ''average_deal_size'', mean_or_zero total_value (length opportunities)),
              (PStr ''filters_applied'', PDict
                 [(PStr ''time_period'', PStr time_period),
                  (PStr ''stage'', PStr stage),
                  (PStr ''min_amount'', opt_float min_amount),
                  (PStr ''limit'', PInt limit)])]),
          (PStr ''opportunities'', PList opportunities),
          (PStr ''timestamp'', PStr (utcnow_iso W))]))))))"

text \<open>
  \<open>query_opportunities\<close>. The handler \<open>except ValueError\<close> around the period turns a
  ValueError into the invalid-period payload; any other exception raised there leaves the
  tool. The handler \<open>except Exception\<close> around the request and the processing turns every
  exception into the error payload.
\<close>

definition query_opportunities ::
    "world \<Rightarrow> string \<Rightarrow> string \<Rightarrow> rat option \<Rightarrow> int \<Rightarrow> exn + pyval" where
  "query_opportunities W time_period stage min_amount limit =
     (case (if time_period \<noteq> [] then
              (case close_date_condition W time_period of
                 Inr c \<Rightarrow> Inr (Inr [c])
               | Inl e \<Rightarrow>
                   if exn_type e = ''ValueError'' then Inr (Inl (invalid_period_payload time_period))
                   else Inl e)
            else Inr (Inr []))
      of Inl e \<Rightarrow> Inl e
       | Inr (Inl payload) \<Rightarrow> Inr payload
       | Inr (Inr period_conditions) \<Rightarrow>
          (let conditions = period_conditions
                 @ (if stage \<noteq> [] then [stage_condition stage] else [])
                 @ (case min_amount of Some a \<Rightarrow> [amount_condition W a] | None \<Rightarrow> []);
               where_clause = where_clause_of conditions;
               query = query_opportunities_query where_clause limit
           in case query_opportunities_body W query time_period stage min_amount limit of
                Inr payload \<Rightarrow> Inr payload
              | Inl e \<Rightarrow> Inr (error_payload e)))"

section \<open>The account tools of \<open>tools/accounts.py\<close>\<close>

definition search_accounts :: "world \<Rightarrow> string \<Rightarrow> int \<Rightarrow> exn + Account list" where
  "search_accounts W industry limit =
     (let industry_filter = (if industry \<noteq> [] then Some industry else None)
      in client_search_accounts W industry_filter limit)"

definition query_accounts_where_clause :: "string \<Rightarrow> string" where
  "query_accounts_where_clause industry =
     (if industry \<noteq> [] then ''where: { Industry: { eq: '' @ dq @ industry @ dq @ '' } }'' else [])"

definition query_accounts_query :: "string \<Rightarrow> int \<Rightarrow> string" where
  "query_accounts_query where_clause limit = concat
     [nl, ''        query GetAccounts {'', nl, ''            uiapi {'', nl,
      ''                query {'', nl, ''                    Account('', nl,
      ''                        '', where_clause, nl, ''                        first: '',
      str_int limit, nl, ''                        orderBy: { Name: { order: ASC } }'',
      nl, ''                    ) {'', nl, ''                        edges {'', nl,
      ''                            node {'', nl, ''                                Id'', nl,
      ''                                Name { value }'', nl,
      ''                                Type { value }'', nl,
      ''                                Industry { value }'', nl,
      ''                                AnnualRevenue { value displayValue }'', nl,
      ''                                NumberOfEmployees { value }'', nl,
      ''                                Phone { value }'', nl,
      ''                                Website { value }'', nl,
      ''                                BillingAddress {'', nl,
      ''                                    BillingCity { value }'', nl,
      ''                                    BillingState { value }'', nl,
      ''                                    BillingCountry { value }'', nl,
      ''                                }'', nl, ''                            }'', nl,
      ''                        }'', nl, ''                        totalCount'', nl,
      ''                    }'', nl, ''                }'', nl, ''            }'', nl,
      ''        }'', nl, ''        '']"

definition query_accounts_step :: "pyval \<Rightarrow> pyval list \<Rightarrow> exn + pyval list" where
  "query_accounts_step edge accounts =
     bindE (py_get edge ''node'' (PDict [])) (\<lambda>node.
     bindE (py_get node ''BillingAddress'' (PDict [])) (\<lambda>billing_address.
     bindE (py_get node ''Id'' PNone) (\<lambda>i.
     bindE (get2 node ''Name'' ''value'' (PStr [])) (\<lambda>name.
     bindE (get2 node ''Type'' ''value'' (PStr [])) (\<lambda>ty.
     bindE (get2 node ''Industry'' ''value'' (PStr [])) (\<lambda>industry.
     bindE (get2 node ''AnnualRevenue'' ''value'' PNone) (\<lambda>annual_revenue.
     bindE (get2 node ''AnnualRevenue'' ''displayValue'' (PStr [])) (\<lambda>annual_revenue_display.
     bindE (get2 node ''NumberOfEmployees'' ''value'' PNone) (\<lambda>employees.
     bindE (get2 node ''Phone'' ''value'' (PStr [])) (\<lambda>phone.
     bindE (get2 node ''Website'' ''value'' (PStr [])) (\<lambda>website.
     bindE (get2 billing_address ''BillingCity'' ''value'' (PStr [])) (\<lambda>city.
     bindE (get2 billing_address ''BillingState'' ''value'' (PStr [])) (\<lambda>state.
     bindE (get2 billing_address ''BillingCountry'' ''value'' (PStr [])) (\<lambda>country.
       Inr (accounts @ [PDict
           [(PStr ''id'', i),
            (PStr ''name'', name),
            (PStr ''type'', ty),
            (PStr ''industry'', industry),
            (PStr ''annual_revenue'', annual_revenue),
            (PStr ''annual_revenue_display'', annual_revenue_display),
            (PStr ''employees'', employees),
            (PStr ''phone'', phone),
            (PStr ''website'', website),
            (PStr ''billing_address'', PDict
               [(PStr ''city'', city), (PStr ''state'', state), (PStr ''country'', country)])]])
     ))))))))))))))"

definition query_accounts_body :: "world \<Rightarrow> string \<Rightarrow> string \<Rightarrow> exn + pyval" where
  "query_accounts_body W query industry =
     bindE (execute_query W query PNone) (\<lambda>result.
     bindE (edges_of result ''Account'') (\<lambda>edges.
     bindE (total_count_of result ''Account'') (\<lambda>total_count.
     bindE (py_iter edges) (\<lambda>es.
     bindE (foldE query_accounts_step es []) (\<lambda>accounts.
       Inr (PDict
         [(PStr ''success'', PBool True),
          (PStr ''summary'', PDict
             [(PStr ''total_accounts'', PInt (int (length accounts))),
              (PStr ''total_count_in_org'', total_count),
              (PStr ''filter_applied'',
                 (if industry \<noteq> [] then PDict [(PStr ''industry'', PStr industry)] else PNone))]),
          (PStr ''accounts'', PList accounts),
          (PStr ''timestamp'', PStr (utcnow_iso W))]))))))"

definition query_accounts :: "world \<Rightarrow> int \<Rightarrow> string \<Rightarrow> exn + pyval" where
  "query_accounts W limit industry =
     (let where_clause = query_accounts_where_clause industry;
          query = query_accounts_query where_clause limit
      in case query_accounts_body W query industry of
           Inr payload \<Rightarrow> Inr payload
         | Inl e \<Rightarrow> Inr (error_payload e))"

text \<open>
  \<open>analyze_account_trends\<close>. The loop collects, of each account, the industry, the annual
  revenue and the number of employees when the field and its \<open>value\<close> are truthy. A
  billing address that is present is a model instance, which is truthy and has no method
  \<open>get\<close>: the call raises AttributeError, so that no country is ever collected and
  \<open>geographic_distribution\<close> stays empty.
\<close>

definition truthy_value :: "pyval \<Rightarrow> exn + pyval option" where
  "truthy_value f =
     (if truthy f then
        bindE (py_get f ''value'' PNone) (\<lambda>v. Inr (if truthy v then Some v else None))
      else Inr None)"

definition trends_step ::
    "world \<Rightarrow> Account \<Rightarrow> pyval list \<times> rat list \<times> int list
       \<Rightarrow> exn + pyval list \<times> rat list \<times> int list" where
  "trends_step W account acc =
     (case acc of (industries, revenues, employee_counts) \<Rightarrow>
     bindE (truthy_value (acc_Industry account)) (\<lambda>ind.
     let industries' = (case ind of Some v \<Rightarrow> industries @ [v] | None \<Rightarrow> industries) in
     bindE (truthy_value (acc_AnnualRevenue account)) (\<lambda>rev.
     bindE (case rev of Some v \<Rightarrow> bindE (py_float W v) (\<lambda>r. Inr (revenues @ [r]))
                      | None \<Rightarrow> Inr revenues) (\<lambda>revenues'.
     bindE (truthy_value (acc_NumberOfEmployees account)) (\<lambda>emp.
     bindE (case emp of Some v \<Rightarrow> bindE (py_int W v) (\<lambda>n. Inr (employee_counts @ [n]))
                      | None \<Rightarrow> Inr employee_counts) (\<lambda>employee_counts'.
       (case acc_BillingAddress account of
          Some b \<Rightarrow>
            Inl (Exn ''AttributeError''
                   (sq @ ''AccountBillingAddress'' @ sq @ '' object has no attribute ''
                    @ sq @ ''get'' @ sq))
        | None \<Rightarrow> Inr (industries', revenues', employee_counts'))))))))"

definition revenue_distribution :: "rat list \<Rightarrow> pyval" where
  "revenue_distribution revenues =
     PDict
       [(PStr ''average_revenue'', PFloat (py_round (sum_list revenues / of_nat (length revenues)) 2)),
        (PStr ''median_revenue'', PFloat (py_round (sorted_middle revenues) 2)),
        (PStr ''total_revenue'', PFloat (py_round (sum_list revenues) 2)),
        (PStr ''revenue_ranges'', PDict
           [(PStr ''under_1M'', PInt (int (length (filter (\<lambda>r. r < 1000000) revenues)))),
            (PStr ''1M_10M'',
               PInt (int (length (filter (\<lambda>r. 1000000 \<le> r \<and> r < 10000000) revenues)))),
            (PStr ''10M_100M'',
               PInt (int (length (filter (\<lambda>r. 10000000 \<le> r \<and> r < 100000000) revenues)))),
            (PStr ''over_100M'', PInt (int (length (filter (\<lambda>r. 100000000 \<le> r) revenues))))])]"

definition size_analysis :: "int list \<Rightarrow> pyval" where
  "size_analysis employee_counts =
     PDict
       [(PStr ''average_employees'',
           PFloat (py_round (of_int (sum_list employee_counts) / of_nat (length employee_counts)) 1)),
        (PStr ''median_employees'', PInt (sorted_middle employee_counts)),
        (PStr ''size_ranges'', PDict
           [(PStr ''small_1_50'', PInt (int (length (filter (\<lambda>e. e < 50) employee_counts)))),
            (PStr ''medium_50_500'',
               PInt (int (length (filter (\<lambda>e. 50 \<le> e \<and> e < 500) employee_counts)))),
            (PStr ''large_500_5000'',
               PInt (int (length (filter (\<lambda>e. 500 \<le> e \<and> e < 5000) employee_counts)))),
            (PStr ''enterprise_5000+'', PInt (int (length (filter (\<lambda>e. 5000 \<le> e) employee_counts))))])]"

definition analyze_account_trends :: "world \<Rightarrow> int \<Rightarrow> exn + pyval" where
  "analyze_account_trends W limit =
     bindE (client_get_recent_accounts W limit) (\<lambda>accounts.
       if accounts = [] then Inr (PDict [(PStr ''message'', PStr ''No accounts found'')])
       else
         bindE (foldE (trends_step W) accounts ([], [], [])) (\<lambda>(industries, revenues, employee_counts).
         bindE (if industries \<noteq> [] then counter_dict industries else Inr (PDict [])) (\<lambda>industry_patterns.
           Inr (PDict
             [(PStr ''total_accounts'', PInt (int (length accounts))),
              (PStr ''industry_patterns'', industry_patterns),
              (PStr ''revenue_distribution'',
                 (if revenues \<noteq> [] then revenue_distribution revenues else PDict [])),
              (PStr ''size_analysis'',
                 (if employee_counts \<noteq> [] then size_analysis employee_counts else PDict [])),
              (PStr ''geographic_distribution'', PDict [])]))))"

section \<open>The business analysis tools of \<open>tools/business_analysis_tools.py\<close>\<close>

text \<open>
  \<open>high_value_pipeline_analysis\<close>. \<open>min_amount\<close> is the float that the caller passes. The
  default of the parameter is the integer \<open>50000\<close>, which a call without the argument would
  print as \<open>50000\<close> and return as an integer; the calls considered here pass the argument.
\<close>

definition high_value_pipeline_query :: "world \<Rightarrow> rat \<Rightarrow> int \<Rightarrow> string" where
  "high_value_pipeline_query W min_amount limit = concat
     [nl, ''            query HighValuePipeline {'', nl, ''                uiapi {'', nl,
      ''                    query {'', nl, ''                        Opportunity('', nl,
      ''                            where: { Amount: { gte: '', float_str W min_amount,
      '' } }'', nl, ''                            first: '', str_int limit, nl,
      ''                            orderBy: { Amount: { order: DESC } }'', nl,
      ''                        ) {'', nl, ''                            edges {'', nl,
      ''                                node {'', nl,
      ''                                    Id'', nl,
      ''                                    Name { value }'', nl,
      ''                                    Amount { value displayValue }'', nl,
      ''                                    CloseDate { value }'', nl,
      ''                                    StageName { value }'', nl,
      ''                                    Probability { value }'', nl,
      ''                                    Account {'', nl,
      ''                                        Id'', nl,
      ''                                        Name { value }'', nl,
      ''                                        Industry { value }'', nl,
      ''                                        Type { value }'', nl,
      ''                                    }'', nl,
      ''                                    Owner {'', nl,
      ''                                        Id'', nl,
      ''                                        Name { value }'', nl,
      ''                                    }'', nl, ''                                }'', nl,
      ''                            }'', nl, ''                            totalCount'', nl,
      ''                        }'', nl, ''                    }'', nl, ''                }'',
      nl, ''            }'', nl, ''            '']"

text \<open>\<open>float(node.get(name, {}).get("value", 0) or 0)\<close>.\<close>

definition float_field :: "world \<Rightarrow> pyval \<Rightarrow> string \<Rightarrow> exn + rat" where
  "float_field W node name =
     bindE (get2 node name ''value'' (PInt 0)) (\<lambda>v. py_float W (py_or v (PInt 0)))"

text \<open>\<open>acc += x\<close> for a float \<open>x\<close> on a numeric accumulator that starts as the integer 0.\<close>

definition add_float :: "pyval \<Rightarrow> rat \<Rightarrow> pyval" where
  "add_float acc x = PFloat ((case num_val acc of Some a \<Rightarrow> a | None \<Rightarrow> 0) + x)"

record pipeline_state =
  opportunities :: "pyval list"
  total_pipeline_value :: pyval
  weighted_pipeline_value :: pyval
  stage_breakdown :: "(pyval \<times> int \<times> rat) list"
  owner_breakdown :: "(pyval \<times> int \<times> rat) list"
  industry_breakdown :: "(pyval \<times> int \<times> rat) list"

definition pipeline_init :: pipeline_state where
  "pipeline_init =
     \<lparr>opportunities = [], total_pipeline_value = PInt 0, weighted_pipeline_value = PInt 0,
      stage_breakdown = [], owner_breakdown = [], industry_breakdown = []\<rparr>"

text \<open>One pass of \<open>for edge in edges\<close> in \<open>high_value_pipeline_analysis\<close>.\<close>

definition pipeline_step :: "world \<Rightarrow> pyval \<Rightarrow> pipeline_state \<Rightarrow> exn + pipeline_state" where
  "pipeline_step W edge st =
     bindE (py_index edge ''node'') (\<lambda>node.
     bindE (float_field W node ''Amount'') (\<lambda>amount.
     bindE (float_field W node ''Probability'') (\<lambda>probability.
     bindE (get2 node ''StageName'' ''value'' (PStr ''Unknown'')) (\<lambda>stage.
     bindE (get3 node ''Owner'' ''Name'' ''value'' (PStr ''Unknown'')) (\<lambda>owner.
     bindE (get3 node ''Account'' ''Industry'' ''value'' (PStr ''Unknown'')) (\<lambda>industry.
     bindE (py_get node ''Id'' PNone) (\<lambda>i.
     bindE (get2 node ''Name'' ''value'' (PStr [])) (\<lambda>name.
     bindE (get2 node ''Amount'' ''displayValue'' (PStr [])) (\<lambda>amount_display.
     bindE (get2 node ''CloseDate'' ''value'' (PStr [])) (\<lambda>close_date.
     bindE (get3 node ''Account'' ''Name'' ''value'' (PStr [])) (\<lambda>account_name.
     let opp_data = PDict
           [(PStr ''id'', i),
            (PStr ''name'', name),
            (PStr ''amount'', PFloat amount),
            (PStr ''amount_display'', amount_display),
            (PStr ''close_date'', close_date),
            (PStr ''stage'', stage),
            (PStr ''probability'', PFloat probability),
            (PStr ''weighted_value'', PFloat (amount * (probability / 100))),
            (PStr ''account_name'', account_name),
            (PStr ''industry'', industry),
            (PStr ''owner'', owner)] in
     bindE (breakdown_add stage amount (stage_breakdown st)) (\<lambda>sb.
     bindE (breakdown_add owner amount (owner_breakdown st)) (\<lambda>ob.
     bindE (breakdown_add industry amount (industry_breakdown st)) (\<lambda>ib.
       Inr \<lparr>opportunities = opportunities st @ [opp_data],
            total_pipeline_value = add_float (total_pipeline_value st) amount,
            weighted_pipeline_value =
              add_float (weighted_pipeline_value st) (amount * (probability / 100)),
            stage_breakdown = sb, owner_breakdown = ob, industry_breakdown = ib\<rparr>
     ))))))))))))))"

text \<open>\<open>opp["probability"]\<close> of a record built by the loop, where it is a float.\<close>

definition probability_of :: "pyval \<Rightarrow> rat" where
  "probability_of opp = (case py_index opp ''probability'' of Inr (PFloat p) \<Rightarrow> p | _ \<Rightarrow> 0)"

definition high_value_pipeline_body :: "world \<Rightarrow> rat \<Rightarrow> int \<Rightarrow> exn + pyval" where
  "high_value_pipeline_body W min_amount limit =
     bindE (execute_query W (high_value_pipeline_query W min_amount limit) PNone) (\<lambda>result.
     bindE (edges_of result ''Opportunity'') (\<lambda>edges.
     bindE (total_count_of result ''Opportunity'') (\<lambda>total_count.
     bindE (py_iter edges) (\<lambda>es.
     bindE (foldE (pipeline_step W) es pipeline_init) (\<lambda>st.
       Inr (PDict
         [(PStr ''success'', PBool True),
          (PStr ''filter_applied'', PDict
             [(PStr ''min_amount'', PFloat min_amount),
              (PStr ''total_in_org'', PInt 34),
              (PStr ''high_value_count'', PInt (int (length (opportunities st))))]),
          (PStr ''pipeline_summary'', PDict
             [(PStr ''total_opportunities'', PInt (int (length (opportunities st)))),
              (PStr ''total_pipeline_value'', total_pipeline_value st),
              (PStr ''weighted_pipeline_value'', weighted_pipeline_value st),
              (PStr ''average_deal_size'',
                 mean_or_zero (total_pipeline_value st) (length (opportunities st))),
              (PStr ''average_probability'',
                 mean_or_zero (PFloat (sum_list (map probability_of (opportunities st))))
                   (length (opportunities st)))]),
          (PStr ''breakdowns'', PDict
             [(PStr ''by_stage'', breakdown_dict (stage_breakdown st)),
              (PStr ''by_owner'', breakdown_dict (owner_breakdown st)),
              (PStr ''by_industry'', breakdown_dict (industry_breakdown st))]),
          (PStr ''opportunities'', PList (opportunities st)),
          (PStr ''timestamp'', PStr (utcnow_iso W))]))))))"

definition high_value_pipeline_analysis :: "world \<Rightarrow> rat \<Rightarrow> int \<Rightarrow> exn + pyval" where
  "high_value_pipeline_analysis W min_amount limit =
     (case high_value_pipeline_body W min_amount limit of
        Inr payload \<Rightarrow> Inr payload
      | Inl e \<Rightarrow> Inr (error_payload e))"

text \<open>
  \<open>sales_stage_analysis\<close>. \<open>exclude_stages\<close> is an optional list of stage names. The
  \<open>where\<close> clause is set only when the list of conditions has length 1.
\<close>

definition stage_ne_condition :: "string \<Rightarrow> string" where
  "stage_ne_condition stage = ''{ StageName: { ne: '' @ dq @ stage @ dq @ '' } }''"

definition sales_stage_where_clause :: "string list option \<Rightarrow> string" where
  "sales_stage_where_clause exclude_stages =
     (case exclude_stages of
        None \<Rightarrow> []
      | Some stages \<Rightarrow>
          if stages \<noteq> [] then
            (let stage_conditions = map stage_ne_condition stages
             in if length stage_conditions = 1 then ''where: '' @ hd stage_conditions else [])
          else [])"

definition sales_stage_query :: "string \<Rightarrow> int \<Rightarrow> string" where
  "sales_stage_query where_clause limit = concat
     [nl, ''            query SalesStageAnalysis {'', nl, ''                uiapi {'', nl,
      ''                    query {'', nl, ''                        Opportunity('', nl,
      ''                            '', where_clause, nl,
      ''                            first: '', str_int limit, nl,
      ''                            orderBy: { Amount: { order: DESC } }'', nl,
      ''                        ) {'', nl, ''                            edges {'', nl,
      ''                                node {'', nl,
      ''                                    Id'', nl,
      ''                                    Name { value }'', nl,
      ''                                    Amount { value displayValue }'', nl,
      ''                                    CloseDate { value }'', nl,
      ''                                    StageName { value }'', nl,
      ''                                    Probability { value }'', nl,
      ''                                    Account {'', nl,
      ''                                        Name { value }'', nl,
      ''                                        Industry { value }'', nl,
      ''                                    }'', nl,
      ''                                    Owner {'', nl,
      ''                                        Name { value }'', nl,
      ''                                    }'', nl, ''                                }'', nl,
      ''                            }'', nl, ''                            totalCount'', nl,
      ''                        }'', nl, ''                    }'', nl, ''                }'',
      nl, ''            }'', nl, ''            '']"

text \<open>
  The metrics of one stage while the loop runs: count, total value, weighted value and
  the deals, each deal with its name, amount, displayed amount, probability and account.
\<close>

type_synonym deal = "pyval \<times> rat \<times> pyval \<times> rat \<times> pyval"

type_synonym stage_info = "pyval \<times> int \<times> rat \<times> rat \<times> deal list"

fun stage_update :: "pyval \<Rightarrow> rat \<Rightarrow> rat \<Rightarrow> deal \<Rightarrow> stage_info list \<Rightarrow> stage_info list" where
  "stage_update k amount w dl [] = [(k, 1, amount, w, [dl])]"
| "stage_update k amount w dl ((k', c, t, wv, deals) # rest) =
     (if key_eq k' k then (k', c + 1, t + amount, wv + w, deals @ [dl]) # rest
      else (k', c, t, wv, deals) # stage_update k amount w dl rest)"

definition sales_stage_step ::
    "world \<Rightarrow> pyval \<Rightarrow> stage_info list \<times> pyval \<Rightarrow> exn + stage_info list \<times> pyval" where
  "sales_stage_step W edge acc =
     (case acc of (stage_metrics, total_value) \<Rightarrow>
     bindE (py_index edge ''node'') (\<lambda>node.
     bindE (get2 node ''StageName'' ''value'' (PStr ''Unknown'')) (\<lambda>stage.
     bindE (float_field W node ''Amount'') (\<lambda>amount.
     bindE (float_field W node ''Probability'') (\<lambda>probability.
       if \<not> hashable stage then Inl (unhashable stage)
       else
         bindE (get2 node ''Name'' ''value'' (PStr [])) (\<lambda>name.
         bindE (get2 node ''Amount'' ''displayValue'' (PStr [])) (\<lambda>amount_display.
         bindE (get3 node ''Account'' ''Name'' ''value'' (PStr [])) (\<lambda>account.
           Inr (stage_update stage amount (amount * (probability / 100))
                  (name, amount, amount_display, probability, account) stage_metrics,
                add_float total_value amount)))))))))"

text \<open>
  \<open>xs.sort(key=f, reverse=True)\<close> and \<open>sorted(xs, key=f, reverse=True)\<close>: descending, and
  stable (elements with equal keys keep their order).
\<close>

definition sort_desc :: "('a \<Rightarrow> rat) \<Rightarrow> 'a list \<Rightarrow> 'a list" where
  "sort_desc f xs = rev (sort_key f (rev xs))"

definition deal_dict :: "deal \<Rightarrow> pyval" where
  "deal_dict dl =
     (case dl of (name, amount, amount_display, probability, account) \<Rightarrow>
        PDict [(PStr ''name'', name),
               (PStr ''amount'', PFloat amount),
               (PStr ''amount_display'', amount_display),
               (PStr ''probability'', PFloat probability),
               (PStr ''account'', account)])"

text \<open>
  The second loop, over the stages: averages and the five largest deals. Every stage in
  the dictionary has a count of at least 1.
\<close>

definition stage_metrics_dict :: "stage_info \<Rightarrow> pyval \<times> pyval" where
  "stage_metrics_dict info =
     (case info of (k, c, t, wv, deals) \<Rightarrow>
        (k, PDict
           [(PStr ''count'', PInt c),
            (PStr ''total_value'', PFloat t),
            (PStr ''weighted_value'', PFloat wv),
            (PStr ''avg_probability'',
               PFloat (sum_list (map (\<lambda>(n, a, d, p, ac). p) deals) / of_nat (length deals))),
            (PStr ''avg_deal_size'', PFloat (t / of_int c)),
            (PStr ''top_deals'',
               PList (map deal_dict (take 5 (sort_desc (\<lambda>(n, a, d, p, ac). a) deals))))]))"

definition sales_stage_body :: "world \<Rightarrow> string \<Rightarrow> string list option \<Rightarrow> exn + pyval" where
  "sales_stage_body W query exclude_stages =
     bindE (execute_query W query PNone) (\<lambda>result.
     bindE (edges_of result ''Opportunity'') (\<lambda>edges.
     bindE (total_count_of result ''Opportunity'') (\<lambda>total_count.
     bindE (py_iter edges) (\<lambda>es.
     bindE (foldE (sales_stage_step W) es ([], PInt 0)) (\<lambda>(stage_metrics, total_value).
     bindE (py_len edges) (\<lambda>n.
       Inr (PDict
         [(PStr ''success'', PBool True),
          (PStr ''filter_applied'', PDict
             [(PStr ''excluded_stages'',
                 PList (map PStr (case exclude_stages of Some stages \<Rightarrow> stages | None \<Rightarrow> []))),
              (PStr ''total_analyzed'', PInt (int n))]),
          (PStr ''summary'', PDict
             [(PStr ''total_opportunities'', PInt (int n)),
              (PStr ''total_pipeline_value'', total_value),
              (PStr ''unique_stages'', PInt (int (length stage_metrics))),
              (PStr ''avg_deal_size'', mean_or_zero total_value n)]),
          (PStr ''stage_analysis'',
             PDict (map stage_metrics_dict (sort_desc (\<lambda>(k, c, t, wv, deals). t) stage_metrics))),
          (PStr ''timestamp'', PStr (utcnow_iso W))])))))))"

definition sales_stage_analysis :: "world \<Rightarrow> string list option \<Rightarrow> int \<Rightarrow> exn + pyval" where
  "sales_stage_analysis W exclude_stages limit =
     (let where_clause = sales_stage_where_clause exclude_stages;
          query = sales_stage_query where_clause limit
      in case sales_stage_body W query exclude_stages of
           Inr payload \<Rightarrow> Inr payload
         | Inl e \<Rightarrow> Inr (error_payload e))"

text \<open>The first day of the month after a given month.\<close>

definition month_succ :: "int \<Rightarrow> int \<Rightarrow> date" where
  "month_succ y m = (if m < 12 then Date y (m + 1) 1 else Date (y + 1) 1 1)"

section \<open>Example environments\<close>

text \<open>
  Concrete inputs for evaluating the tools. \<open>world_of outcome\<close> is a world whose remote
  service answers every request with \<open>outcome\<close>, on the 4th of November 2026. Its
  \<open>float_str\<close> prints a float of integral value the way Python does (\<open>50000.0\<close>); the
  examples use no other floats, and no string is converted to a number.
\<close>

definition integral_float_str :: "rat \<Rightarrow> string" where
  "integral_float_str r = str_int \<lfloor>r\<rfloor> @ ''.0''"

definition world_of :: "http_outcome \<Rightarrow> world" where
  "world_of outcome =
     \<lparr>respond = (\<lambda>query variables. outcome),
      float_str = integral_float_str,
      repr_of = (\<lambda>v. []),
      float_of_str = (\<lambda>s. None),
      int_of_str = (\<lambda>s. None),
      today = Date 2026 11 4,
      utcnow_iso = ''2026-11-04T12:00:00''\<rparr>"

text \<open>A 200 response whose body holds the given edges and total count of an entity.\<close>

definition connection_body :: "string \<Rightarrow> pyval list \<Rightarrow> int \<Rightarrow> pyval" where
  "connection_body entity edges n =
     PDict [(PStr ''data'', PDict [(PStr ''uiapi'', PDict [(PStr ''query'', PDict
       [(PStr entity, PDict [(PStr ''edges'', PList edges), (PStr ''totalCount'', PInt n)])])])])]"

definition ok_response :: "pyval \<Rightarrow> http_outcome" where
  "ok_response body = Response 200 [] (Inr body)"

definition value_of :: "pyval \<Rightarrow> pyval" where
  "value_of v = PDict [(PStr ''value'', v)]"

text \<open>An account node with an annual revenue, and an opportunity node without account.\<close>

definition account_edge :: "string \<Rightarrow> int \<Rightarrow> pyval" where
  "account_edge name revenue =
     PDict [(PStr ''node'', PDict
       [(PStr ''Id'', PStr name),
        (PStr ''Name'', value_of (PStr name)),
        (PStr ''AnnualRevenue'', value_of (PInt revenue))])]"

definition opportunity_edge :: "string \<Rightarrow> int \<Rightarrow> pyval \<Rightarrow> pyval" where
  "opportunity_edge name amount account =
     PDict [(PStr ''node'', PDict
       [(PStr ''Id'', PStr name),
        (PStr ''Name'', value_of (PStr name)),
        (PStr ''Amount'', value_of (PInt amount)),
        (PStr ''StageName'', value_of (PStr ''Prospecting'')),
        (PStr ''Probability'', value_of (PInt 25)),
        (PStr ''Account'', account)])]"


text \<open>
  A body with one opportunity above the threshold, for which the service reports a total
  count of 7.
\<close>

definition seven_in_org :: pyval where
  "seven_in_org = connection_body ''Opportunity'' [opportunity_edge ''A'' 100000 (PDict [])] 7"

text \<open>
  A body with one opportunity whose \<open>Account\<close> relation is present with the value null.
\<close>

definition null_account_body :: pyval where
  "null_account_body = connection_body ''Opportunity'' [opportunity_edge ''A'' 100000 PNone] 1"

text \<open>Four accounts with the annual revenues 10, 20, 30 and 40.\<close>

definition four_accounts :: pyval where
  "four_accounts =
     connection_body ''Account''
       [account_edge ''A'' 10, account_edge ''B'' 20, account_edge ''C'' 30, account_edge ''D'' 40] 4"

text \<open>
  A stage argument that closes the string literal and the \<open>StageName\<close> filter it is put in,
  and adds two filters of its own.
\<close>

definition injected_stage :: string where
  "injected_stage = ''Closed Won'' @ dq @ '' }, Amount: { gte: 1000000 }, Name: { ne: '' @ dq"

text \<open>A world whose remote service answers every request with status 500.\<close>

definition server_error_world :: world where
  "server_error_world = world_of (Response 500 ''Internal Server Error'' (Inr PNone))"

text \<open>
  A world whose transport raises at once, with the document it was handed as the message
  of the exception: what a tool reports then shows the document it built.
\<close>

definition echoing :: "world \<Rightarrow> world" where
  "echoing W = W\<lparr>respond := (\<lambda>query variables. PostRaised (Exn ''Sent'' query))\<rparr>"

section \<open>Facts about the calendar and the date-range resolver\<close>

lemma bindE_simps [simp]: "bindE (Inr x) f = f x" "bindE (Inl e) f = Inl e"
  by (simp_all add: bindE_def)

lemma dim_bounds: "28 \<le> days_in_month y m" "days_in_month y m \<le> 31"
  by (auto simp: days_in_month_def)

lemma next_in_month:
  "d + int k \<le> days_in_month y m \<Longrightarrow> (next_day ^^ k) (Date y m d) = Date y m (d + int k)"
  by (induction k) (auto simp: algebra_simps)

lemma prev_in_month:
  "int k < d \<Longrightarrow> (prev_day ^^ k) (Date y m d) = Date y m (d - int k)"
  by (induction k) (auto simp: algebra_simps)

lemma next_month_end:
  "(next_day ^^ nat (days_in_month y m)) (Date y m 1) = month_succ y m"
proof -
  have pos: "1 \<le> days_in_month y m" using dim_bounds(1)[of y m] by simp
  define k where "k = nat (days_in_month y m - 1)"
  have k: "nat (days_in_month y m) = Suc k" "1 + int k = days_in_month y m"
    using pos by (auto simp: k_def)
  have "(next_day ^^ k) (Date y m 1) = Date y m (1 + int k)"
    by (rule next_in_month) (simp add: k)
  then show ?thesis by (simp add: k month_succ_def)
qed

lemma cross_month:
  assumes "days_in_month y m \<le> int n"
  shows "(next_day ^^ n) (Date y m 1) = (next_day ^^ (n - nat (days_in_month y m))) (month_succ y m)"
proof -
  have "n = (n - nat (days_in_month y m)) + nat (days_in_month y m)"
    using assms by simp
  then have "(next_day ^^ n) (Date y m 1) =
      (next_day ^^ (n - nat (days_in_month y m))) ((next_day ^^ nat (days_in_month y m)) (Date y m 1))"
    by (metis funpow_add comp_apply)
  then show ?thesis by (simp add: next_month_end)
qed

lemma plus32:
  assumes "1 \<le> m" "m \<le> 12"
  shows "\<exists>dd. 1 \<le> dd \<and> dd \<le> 28 \<and>
     shift_days (Date y m 1) 32 = (if m < 12 then Date y (m + 1) dd else Date (y + 1) 1 dd)"
proof -
  define k where "k = 32 - nat (days_in_month y m)"
  have k: "1 \<le> int k" "int k \<le> 4" using dim_bounds[of y m] by (auto simp: k_def)
  have "(next_day ^^ 32) (Date y m 1) = (next_day ^^ k) (month_succ y m)"
    unfolding k_def by (rule cross_month) (use dim_bounds(2)[of y m] in simp)
  also have "\<dots> = (if m < 12 then Date y (m + 1) (1 + int k) else Date (y + 1) 1 (1 + int k))"
    using k dim_bounds(1)[of y "m+1"] dim_bounds(1)[of "y+1" 1]
    by (simp add: month_succ_def next_in_month)
  finally show ?thesis
    using k by (auto simp: shift_days_def)
qed

lemma plus95:
  assumes "m = 1 \<or> m = 4 \<or> m = 7 \<or> m = 10"
  shows "\<exists>dd. 1 \<le> dd \<and> dd \<le> 28 \<and>
     shift_days (Date y m 1) 95 = (if m < 10 then Date y (m + 3) dd else Date (y + 1) 1 dd)"
proof (cases "is_leap y")
  case True
  with assms show ?thesis
    by (auto simp: shift_days_def cross_month month_succ_def days_in_month_def next_in_month)
next
  case False
  with assms show ?thesis
    by (auto simp: shift_days_def cross_month month_succ_def days_in_month_def next_in_month)
qed


lemma quarter_start_cases:
  assumes "1 \<le> m" "m \<le> (12::int)"
  shows "(m - 1) div 3 * 3 + 1 = 1 \<or> (m - 1) div 3 * 3 + 1 = 4 \<or>
         (m - 1) div 3 * 3 + 1 = 7 \<or> (m - 1) div 3 * 3 + 1 = 10"
  using assms by presburger

lemma quarter_start_le:
  assumes "1 \<le> m" "m \<le> (12::int)"
  shows "(m - 1) div 3 * 3 + 1 \<le> m \<and> m \<le> (m - 1) div 3 * 3 + 3"
  using assms by presburger

text \<open>the tail of the month and quarter computations: back to the first, one day back\<close>

lemma tail_first_minus_one:
  assumes "1 \<le> dd" "dd \<le> 28" "1 \<le> y'" "y' \<le> 9999" "1 \<le> m'" "m' \<le> 12"
    and "1 \<le> year (prev_day (Date y' m' 1))"
  shows "bindE (date_replace (year (Date y' m' dd)) (month (Date y' m' dd)) 1) (\<lambda>t1.
           bindE (date_add t1 (- 1)) (\<lambda>fin. Inr (start, fin)))
         = Inr (start, prev_day (Date y' m' 1))"
proof -
  have r: "date_replace y' m' 1 = Inr (Date y' m' 1)"
    using assms dim_bounds(1)[of y' m'] by (simp add: date_replace_def)
  have le: "year (prev_day (Date y' m' 1)) \<le> 9999" using assms by simp
  have a: "date_add (Date y' m' 1) (- 1) = Inr (prev_day (Date y' m' 1))"
    unfolding date_add_def shift_days_def Let_def using assms(7) le by simp
  show ?thesis by (simp add: r a)
qed

lemma quarter_from_start:
  assumes qs: "qs = 1 \<or> qs = 4 \<or> qs = 7 \<or> qs = 10"
    and yr: "1 \<le> y" "y \<le> 9999" "qs = 10 \<longrightarrow> y \<le> 9998"
  shows "bindE (date_add (Date y qs 1) 95) (\<lambda>t.
         bindE (date_replace (year t) (month t) 1) (\<lambda>t1.
         bindE (date_add t1 (- 1)) (\<lambda>fin. Inr (s, fin))))
         = Inr (s, Date y (qs + 2) (days_in_month y (qs + 2)))"
proof -
  obtain dd where dd: "1 \<le> dd" "dd \<le> 28"
    and sh: "shift_days (Date y qs 1) 95 = (if qs < 10 then Date y (qs + 3) dd else Date (y + 1) 1 dd)"
    using plus95[OF qs, of y] by blast
  define y' m' where "y' = (if qs < 10 then y else y + 1)" and "m' = (if qs < 10 then qs + 3 else 1)"
  have sh': "shift_days (Date y qs 1) 95 = Date y' m' dd"
    using sh by (simp add: y'_def m'_def)
  have rng: "1 \<le> y'" "y' \<le> 9999" "1 \<le> m'" "m' \<le> 12"
    using qs yr by (auto simp: y'_def m'_def)
  have add: "date_add (Date y qs 1) 95 = Inr (Date y' m' dd)"
    using rng by (simp add: date_add_def sh')
  have pd: "prev_day (Date y' m' 1) = Date y (qs + 2) (days_in_month y (qs + 2))"
    using qs by (auto simp: y'_def m'_def days_in_month_def)
  have tl: "bindE (date_replace (year (Date y' m' dd)) (month (Date y' m' dd)) 1) (\<lambda>t1.
           bindE (date_add t1 (- 1)) (\<lambda>fin. Inr (s, fin)))
         = Inr (s, prev_day (Date y' m' 1))"
    by (rule tail_first_minus_one) (use dd rng pd yr in auto)
  show ?thesis
    unfolding pd[symmetric] using tl by (simp add: add)
qed

lemma month_from_start:
  assumes m: "1 \<le> m" "m \<le> 12"
    and yr: "1 \<le> y" "y \<le> 9999" "m = 12 \<longrightarrow> y \<le> 9998"
  shows "bindE (date_add (Date y m 1) 32) (\<lambda>t.
         bindE (date_replace (year t) (month t) 1) (\<lambda>t1.
         bindE (date_add t1 (- 1)) (\<lambda>fin. Inr (s, fin))))
         = Inr (s, Date y m (days_in_month y m))"
proof -
  obtain dd where dd: "1 \<le> dd" "dd \<le> 28"
    and sh: "shift_days (Date y m 1) 32 = (if m < 12 then Date y (m + 1) dd else Date (y + 1) 1 dd)"
    using plus32[OF m, of y] by blast
  define y' m' where "y' = (if m < 12 then y else y + 1)" and "m' = (if m < 12 then m + 1 else 1)"
  have sh': "shift_days (Date y m 1) 32 = Date y' m' dd"
    using sh by (simp add: y'_def m'_def)
  have rng: "1 \<le> y'" "y' \<le> 9999" "1 \<le> m'" "m' \<le> 12"
    using m yr by (auto simp: y'_def m'_def)
  have add: "date_add (Date y m 1) 32 = Inr (Date y' m' dd)"
    using rng by (simp add: date_add_def sh')
  have pd: "prev_day (Date y' m' 1) = Date y m (days_in_month y m)"
    using m by (auto simp: y'_def m'_def days_in_month_def)
  have tl: "bindE (date_replace (year (Date y' m' dd)) (month (Date y' m' dd)) 1) (\<lambda>t1.
           bindE (date_add t1 (- 1)) (\<lambda>fin. Inr (s, fin)))
         = Inr (s, prev_day (Date y' m' 1))"
    by (rule tail_first_minus_one) (use dd rng pd yr in auto)
  show ?thesis
    unfolding pd[symmetric] using tl by (simp add: add)
qed

lemma replace_first:
  "1 \<le> y \<Longrightarrow> y \<le> 9999 \<Longrightarrow> 1 \<le> m \<Longrightarrow> m \<le> 12 \<Longrightarrow> date_replace y m 1 = Inr (Date y m 1)"
  using dim_bounds(1)[of y m] by (simp add: date_replace_def)

lemma this_quarter_bounds:
  assumes "valid_date now" "year now \<le> 9998 \<or> month now \<le> 9"
  shows "date_range_bounds THIS_QUARTER now =
           Inr (Date (year now) ((month now - 1) div 3 * 3 + 1) 1,
                Date (year now) ((month now - 1) div 3 * 3 + 3)
                     (days_in_month (year now) ((month now - 1) div 3 * 3 + 3)))"
proof -
  define y where "y = year now"
  define qs where "qs = (month now - 1) div 3 * 3 + 1"
  have m: "1 \<le> month now" "month now \<le> 12" and yr: "1 \<le> y" "y \<le> 9999"
    using assms by (auto simp: valid_date_def valid_month_day_def y_def)
  have qs: "qs = 1 \<or> qs = 4 \<or> qs = 7 \<or> qs = 10"
    unfolding qs_def using quarter_start_cases[OF m] .
  have "qs \<le> month now" unfolding qs_def using quarter_start_le[OF m] by simp
  then have q10: "qs = 10 \<longrightarrow> y \<le> 9998"
    using assms(2) by (auto simp: y_def)
  have start: "date_replace y qs 1 = Inr (Date y qs 1)"
    using qs yr by (auto simp: replace_first)
  have "date_range_bounds THIS_QUARTER now =
          bindE (date_replace y qs 1) (\<lambda>start.
          bindE (date_add start 95) (\<lambda>t.
          bindE (date_replace (year t) (month t) 1) (\<lambda>t1.
          bindE (date_add t1 (- 1)) (\<lambda>fin. Inr (start, fin)))))"
    by (simp add: Let_def y_def qs_def add.commute)
  also have "\<dots> = Inr (Date y qs 1, Date y (qs + 2) (days_in_month y (qs + 2)))"
    using quarter_from_start[OF qs yr q10] by (simp add: start)
  finally show ?thesis
    by (simp add: y_def qs_def add.commute)
qed

lemma last_quarter_bounds:
  assumes "valid_date now" "2 \<le> year now"
  shows "date_range_bounds LAST_QUARTER now =
           (if month now \<le> 3
            then Inr (Date (year now - 1) 10 1, Date (year now - 1) 12 31)
            else Inr (Date (year now) ((month now - 1) div 3 * 3 - 2) 1,
                      Date (year now) ((month now - 1) div 3 * 3)
                           (days_in_month (year now) ((month now - 1) div 3 * 3))))"
proof -
  define y where "y = year now"
  have m: "1 \<le> month now" "month now \<le> 12" and yr: "2 \<le> y" "y \<le> 9999"
    using assms by (auto simp: valid_date_def valid_month_day_def y_def)
  show ?thesis
  proof (cases "month now \<le> 3")
    case True
    then have q0: "(month now - 1) div 3 = 0" using m by presburger
    have start: "date_replace (y - 1) 10 1 = Inr (Date (y - 1) 10 1)"
      using yr by (simp add: replace_first)
    have "bindE (date_add (Date (y - 1) 10 1) 95) (\<lambda>t.
         bindE (date_replace (year t) (month t) 1) (\<lambda>t1.
         bindE (date_add t1 (- 1)) (\<lambda>fin. Inr (Date (y - 1) 10 1, fin))))
         = Inr (Date (y - 1) 10 1, Date (y - 1) (10 + 2) (days_in_month (y - 1) (10 + 2)))"
      by (rule quarter_from_start) (use yr in auto)
    then show ?thesis
      using True by (simp add: q0 y_def[symmetric] start days_in_month_def)
  next
    case False
    define qs where "qs = (month now - 1) div 3 * 3 - 2"
    have qn: "(month now - 1) div 3 \<noteq> 0" using False m by presburger
    have qs: "qs = 1 \<or> qs = 4 \<or> qs = 7 \<or> qs = 10"
      unfolding qs_def using False m by presburger
    have qs10: "qs \<noteq> 10" unfolding qs_def using m by presburger
    have qeq: "((month now - 1) div 3 - 1) * 3 + 1 = qs" by (simp add: qs_def algebra_simps)
    have start: "date_replace y qs 1 = Inr (Date y qs 1)"
      using qs yr by (auto simp: replace_first)
    have "bindE (date_add (Date y qs 1) 95) (\<lambda>t.
         bindE (date_replace (year t) (month t) 1) (\<lambda>t1.
         bindE (date_add t1 (- 1)) (\<lambda>fin. Inr (Date y qs 1, fin))))
         = Inr (Date y qs 1, Date y (qs + 2) (days_in_month y (qs + 2)))"
      by (rule quarter_from_start) (use yr qs qs10 in auto)
    then have "date_range_bounds LAST_QUARTER now =
        Inr (Date y qs 1, Date y (qs + 2) (days_in_month y (qs + 2)))"
      using qn qeq by (simp add: Let_def y_def[symmetric] start)
    then show ?thesis
      using False by (simp add: y_def qs_def)
  qed
qed

lemma this_month_bounds:
  assumes "valid_date now" "year now \<le> 9998"
  shows "date_range_bounds THIS_MONTH now =
           Inr (Date (year now) (month now) 1,
                Date (year now) (month now) (days_in_month (year now) (month now)))"
proof -
  have m: "1 \<le> month now" "month now \<le> 12" and yr: "1 \<le> year now" "year now \<le> 9998"
    using assms by (auto simp: valid_date_def valid_month_day_def)
  have start: "date_replace (year now) (month now) 1 = Inr (Date (year now) (month now) 1)"
    using m yr by (simp add: replace_first)
  show ?thesis
    using month_from_start[OF m, of "year now"] yr by (simp add: start)
qed

lemma last_month_bounds:
  assumes "valid_date now" "2 \<le> year now"
  shows "date_range_bounds LAST_MONTH now =
           (if 1 < month now
            then Inr (Date (year now) (month now - 1) 1,
                      Date (year now) (month now - 1) (days_in_month (year now) (month now - 1)))
            else Inr (Date (year now - 1) 12 1, Date (year now - 1) 12 31))"
proof -
  have m: "1 \<le> month now" "month now \<le> 12" and yr: "2 \<le> year now" "year now \<le> 9999"
    using assms by (auto simp: valid_date_def valid_month_day_def)
  have start: "date_replace (year now) (month now) 1 = Inr (Date (year now) (month now) 1)"
    using m yr by (simp add: replace_first)
  have bk: "date_add (Date (year now) (month now) 1) (- 1) = Inr (prev_day (Date (year now) (month now) 1))"
    using yr by (simp add: date_add_def shift_days_def)
  show ?thesis
    using m yr by (simp add: start bk replace_first)
qed

lemma this_year_bounds:
  assumes "valid_date now"
  shows "date_range_bounds THIS_YEAR now = Inr (Date (year now) 1 1, Date (year now) 12 31)"
  using assms by (simp add: valid_date_def date_replace_def days_in_month_def)

lemma last_year_bounds:
  assumes "valid_date now" "2 \<le> year now"
  shows "date_range_bounds LAST_YEAR now = Inr (Date (year now - 1) 1 1, Date (year now - 1) 12 31)"
  using assms by (simp add: valid_date_def date_replace_def days_in_month_def)


lemma prev_day_valid: "valid_month_day d \<Longrightarrow> valid_month_day (prev_day d)"
  by (cases d) (auto simp: valid_month_day_def days_in_month_def)

lemma next_day_valid: "valid_month_day d \<Longrightarrow> valid_month_day (next_day d)"
  by (cases d) (auto simp: valid_month_day_def days_in_month_def)

lemma date_le_refl: "date_le d d"
  by (simp add: date_le_def)

lemma date_le_trans: "date_le a b \<Longrightarrow> date_le b c \<Longrightarrow> date_le a c"
  by (auto simp: date_le_def)

lemma prev_day_le: "valid_month_day d \<Longrightarrow> date_le (prev_day d) d"
  by (cases d) (auto simp: date_le_def valid_month_day_def)

lemma next_day_ge: "valid_month_day d \<Longrightarrow> date_le d (next_day d)"
  by (cases d) (auto simp: date_le_def valid_month_day_def)

lemma prev_iter:
  assumes "valid_month_day d" "k \<le> 31"
  shows "valid_month_day ((prev_day ^^ k) d) \<and> date_le ((prev_day ^^ k) d) d \<and>
         (year ((prev_day ^^ k) d) = year d \<or>
          (year ((prev_day ^^ k) d) = year d - 1 \<and> month ((prev_day ^^ k) d) = 12 \<and>
           32 - int k \<le> day ((prev_day ^^ k) d)))"
  using assms(2)
proof (induction k)
  case 0
  show ?case using assms(1) by (simp add: date_le_refl)
next
  case (Suc k)
  define e where "e = (prev_day ^^ k) d"
  have ih: "valid_month_day e" "date_le e d"
    "year e = year d \<or> (year e = year d - 1 \<and> month e = 12 \<and> 32 - int k \<le> day e)"
    using Suc by (auto simp: e_def)
  have v: "valid_month_day (prev_day e)" using ih(1) by (rule prev_day_valid)
  have l: "date_le (prev_day e) d"
    using prev_day_le[OF ih(1)] ih(2) by (rule date_le_trans)
  have y: "year (prev_day e) = year d \<or>
          (year (prev_day e) = year d - 1 \<and> month (prev_day e) = 12 \<and>
           32 - int (Suc k) \<le> day (prev_day e))"
    using ih(1,3) Suc.prems by (cases e) (auto simp: valid_month_day_def)
  show ?case using v l y by (simp add: e_def)
qed

lemma next_iter:
  assumes "valid_month_day d" "k \<le> 31"
  shows "valid_month_day ((next_day ^^ k) d) \<and> date_le d ((next_day ^^ k) d) \<and>
         (year ((next_day ^^ k) d) = year d \<or>
          (year ((next_day ^^ k) d) = year d + 1 \<and> month ((next_day ^^ k) d) = 1 \<and>
           day ((next_day ^^ k) d) \<le> int k))"
  using assms(2)
proof (induction k)
  case 0
  show ?case using assms(1) by (simp add: date_le_refl)
next
  case (Suc k)
  define e where "e = (next_day ^^ k) d"
  have ih: "valid_month_day e" "date_le d e"
    "year e = year d \<or> (year e = year d + 1 \<and> month e = 1 \<and> day e \<le> int k)"
    using Suc by (auto simp: e_def)
  have v: "valid_month_day (next_day e)" using ih(1) by (rule next_day_valid)
  have l: "date_le d (next_day e)"
    using ih(2) next_day_ge[OF ih(1)] by (rule date_le_trans)
  have y: "year (next_day e) = year d \<or>
          (year (next_day e) = year d + 1 \<and> month (next_day e) = 1 \<and>
           day (next_day e) \<le> int (Suc k))"
    using ih(1,3) Suc.prems by (cases e) (auto simp: valid_month_day_def days_in_month_def)
  show ?case using v l y by (simp add: e_def)
qed

lemma weekday_range: "0 \<le> weekday d \<and> weekday d \<le> 6"
  by (simp add: weekday_def)

lemma week_bounds:
  assumes now: "valid_date now" "2 \<le> year now" "year now \<le> 9998"
    and w: "0 \<le> w" "w \<le> 13"
  shows "\<exists>s e. bindE (date_add now (- w)) (\<lambda>start.
                 bindE (date_add start 6) (\<lambda>fin. Inr (start, fin))) = Inr (s, e)
               \<and> valid_date s \<and> valid_date e \<and> date_le s e"
proof -
  define s where "s = (prev_day ^^ nat w) now"
  define e where "e = (next_day ^^ 6) s"
  have vmd: "valid_month_day now" using now(1) by (simp add: valid_date_def)
  have sh: "shift_days now (- w) = s"
    using w by (auto simp: shift_days_def s_def)
  have kw: "nat w \<le> 31" using w by simp
  have ps: "valid_month_day s" "year now - 1 \<le> year s" "year s \<le> year now"
    using prev_iter[OF vmd kw] by (auto simp: s_def)
  have pe: "valid_month_day e" "date_le s e" "year s \<le> year e" "year e \<le> year s + 1"
    using next_iter[OF ps(1), of 6] by (auto simp: e_def)
  have a1: "date_add now (- w) = Inr s"
    using ps now by (simp add: date_add_def sh)
  have a2: "date_add s 6 = Inr e"
    using ps pe now by (simp add: date_add_def shift_days_def e_def)
  have "valid_date s" "valid_date e"
    using ps pe now by (auto simp: valid_date_def)
  then show ?thesis using pe(2) by (simp add: a1 a2)
qed

lemma valid_first: "1 \<le> y \<Longrightarrow> y \<le> 9999 \<Longrightarrow> 1 \<le> m \<Longrightarrow> m \<le> 12 \<Longrightarrow> valid_date (Date y m 1)"
  using dim_bounds(1)[of y m] by (simp add: valid_date_def valid_month_day_def)

lemma valid_last:
  "1 \<le> y \<Longrightarrow> y \<le> 9999 \<Longrightarrow> 1 \<le> m \<Longrightarrow> m \<le> 12 \<Longrightarrow> valid_date (Date y m (days_in_month y m))"
  using dim_bounds(1)[of y m] by (simp add: valid_date_def valid_month_day_def)

lemma first_le_last: "date_le (Date y m 1) (Date y (m + k) (days_in_month y (m + k)))" if "0 \<le> k"
  using that dim_bounds(1)[of y "m + k"] by (auto simp: date_le_def)

lemma window_ok:
  assumes "valid_date now" "2 \<le> year now" "year now \<le> 9998"
  shows "\<exists>s e. date_range_bounds r now = Inr (s, e) \<and> valid_date s \<and> valid_date e \<and> date_le s e"
proof -
  have m: "1 \<le> month now" "month now \<le> 12"
    using assms(1) by (auto simp: valid_date_def valid_month_day_def)
  have w: "0 \<le> weekday now" "weekday now \<le> 6" using weekday_range[of now] by auto
  show ?thesis
  proof (cases r)
    case THIS_WEEK
    show ?thesis
      unfolding THIS_WEEK date_range_bounds.simps
      by (rule week_bounds[OF assms]) (use w in auto)
  next
    case LAST_WEEK
    show ?thesis
      unfolding LAST_WEEK date_range_bounds.simps
      by (rule week_bounds[OF assms]) (use w in auto)
  next
    case THIS_MONTH
    have "date_range_bounds r now =
        Inr (Date (year now) (month now) 1,
             Date (year now) (month now) (days_in_month (year now) (month now)))"
      unfolding THIS_MONTH by (rule this_month_bounds) (use assms in auto)
    then show ?thesis
      using m assms first_le_last[of 0 "year now" "month now"]
      by (simp add: valid_first valid_last)
  next
    case LAST_MONTH
    have eq: "date_range_bounds r now =
           (if 1 < month now
            then Inr (Date (year now) (month now - 1) 1,
                      Date (year now) (month now - 1) (days_in_month (year now) (month now - 1)))
            else Inr (Date (year now - 1) 12 1, Date (year now - 1) 12 31))"
      unfolding LAST_MONTH by (rule last_month_bounds) (use assms in auto)
    show ?thesis
    proof (cases "1 < month now")
      case True
      then show ?thesis
        using eq m assms first_le_last[of 0 "year now" "month now - 1"]
        by (simp add: valid_first valid_last)
    next
      case False
      then show ?thesis
        using eq assms
        by (simp add: valid_date_def valid_month_day_def days_in_month_def date_le_def)
    qed
  next
    case THIS_QUARTER
    define qs where "qs = (month now - 1) div 3 * 3 + 1"
    have q: "1 \<le> qs" "qs + 2 \<le> 12" unfolding qs_def using m by presburger+
    have e3: "(month now - 1) div 3 * 3 + 3 = (month now - 1) div 3 * 3 + 1 + 2" by simp
    have "date_range_bounds r now =
        Inr (Date (year now) qs 1, Date (year now) (qs + 2) (days_in_month (year now) (qs + 2)))"
      using this_quarter_bounds[OF assms(1) disjI1[OF assms(3)]] unfolding THIS_QUARTER e3 qs_def[symmetric] .
    then show ?thesis
      using q assms first_le_last[of 2 "year now" qs]
      by (simp add: valid_first valid_last)
  next
    case LAST_QUARTER
    have eq: "date_range_bounds r now =
           (if month now \<le> 3
            then Inr (Date (year now - 1) 10 1, Date (year now - 1) 12 31)
            else Inr (Date (year now) ((month now - 1) div 3 * 3 - 2) 1,
                      Date (year now) ((month now - 1) div 3 * 3)
                           (days_in_month (year now) ((month now - 1) div 3 * 3))))"
      unfolding LAST_QUARTER by (rule last_quarter_bounds) (use assms in auto)
    show ?thesis
    proof (cases "month now \<le> 3")
      case True
      then show ?thesis
        using eq assms
        by (simp add: valid_date_def valid_month_day_def days_in_month_def date_le_def)
    next
      case False
      define qs where "qs = (month now - 1) div 3 * 3 - 2"
      have q: "1 \<le> qs" "qs + 2 \<le> 12" "(month now - 1) div 3 * 3 = qs + 2"
        unfolding qs_def using m False by presburger+
      show ?thesis
        using eq False q assms first_le_last[of 2 "year now" qs]
        by (simp add: qs_def[symmetric] valid_first valid_last)
    qed
  next
    case THIS_YEAR
    then show ?thesis
      using this_year_bounds[of now] assms
      by (simp add: valid_date_def valid_month_day_def days_in_month_def date_le_def)
  next
    case LAST_YEAR
    then show ?thesis
      using last_year_bounds[of now] assms
      by (simp add: valid_date_def valid_month_day_def days_in_month_def date_le_def)
  qed
qed

lemma DateRange_of_unsupported:
  assumes "v \<notin> DateRange_value ` set DateRange_members"
  shows "DateRange_of v = Inl (ValueError (sq @ v @ sq @ '' is not a valid DateRange''))"
proof -
  have "find (\<lambda>r. DateRange_value r = v) DateRange_members = None"
    using assms by (auto simp: find_None_iff)
  then show ?thesis by (simp add: DateRange_of_def)
qed

lemma DateRange_of_supported: "DateRange_of (DateRange_value r) = Inr r"
  by (cases r) (simp_all add: DateRange_of_def DateRange_members_def)

lemma DateRange_value_normal:
  "replace_space (py_lower (DateRange_value r)) = DateRange_value r"
  by (cases r) (simp_all add: replace_space_def py_lower_def lower_char_def)

lemma DateRange_value_not_empty: "DateRange_value r \<noteq> []"
  by (cases r) simp_all

lemma execute_query_echoing:
  "execute_query (echoing W) query variables = Inl (Exn ''Sent'' query)"
  by (simp add: execute_query_def echoing_def)

section \<open>Facts for evaluating the tools on the example environments\<close>

lemma bindE_cong_weak: "m = m' \<Longrightarrow> bindE m f = bindE m' f"
  by simp

lemma execute_query_connection_body:
  "execute_query (world_of (ok_response (connection_body entity edges n))) query variables
     = Inr (connection_body entity edges n)"
  by (simp add: execute_query_def world_of_def ok_response_def is_success_def connection_body_def)

lemma edges_of_connection_body:
  "edges_of (connection_body entity edges n) entity = Inr (PList edges)"
  by (simp add: edges_of_def connection_def connection_body_def)

lemma total_count_of_connection_body:
  "total_count_of (connection_body entity edges n) entity = Inr (PInt n)"
  by (simp add: total_count_of_def connection_def connection_body_def)

lemma high_value_pipeline_body_success:
  "high_value_pipeline_body W min_amount limit = Inr p
     \<Longrightarrow> py_get p ''success'' PNone = Inr (PBool True)
       \<and> get2 p ''filter_applied'' ''total_in_org'' PNone = Inr (PInt 34)"
  by (auto simp: high_value_pipeline_body_def bindE_def get2_def split: sum.splits)

lemma pipeline_step_null_account:
  "\<not> float_overflows amount \<Longrightarrow>
   pipeline_step W (opportunity_edge name amount PNone) st = Inl (AttributeError PNone ''get'')"
  by (simp add: pipeline_step_def opportunity_edge_def value_of_def float_field_def get2_def
        get3_def py_or_def float_overflows_def cong: bindE_cong_weak)

lemma pipeline_step_empty_account:
  "\<not> float_overflows amount \<Longrightarrow>
   \<exists>st'. pipeline_step W (opportunity_edge name amount (PDict [])) pipeline_init = Inr st'"
  by (simp add: pipeline_step_def opportunity_edge_def value_of_def float_field_def get2_def
        get3_def py_or_def breakdown_add_def pipeline_init_def float_overflows_def
        cong: bindE_cong_weak)

section \<open>Facts about the median of the tools\<close>

lemma length_filter_sort:
  "length (filter P (sort xs)) = length (filter P xs)"
  by (simp add: filter_sort)

lemma sorted_middle_rank:
  fixes xs :: "'a::linorder list"
  assumes ne: "xs \<noteq> []"
  shows "sorted_middle xs \<in> set xs
       \<and> length (filter (\<lambda>x. x < sorted_middle xs) xs) \<le> length xs div 2
       \<and> length xs div 2 < length (filter (\<lambda>x. x \<le> sorted_middle xs) xs)"
proof -
  define ys where "ys = sort xs"
  define k where "k = length xs div 2"
  define m where "m = ys ! k"
  have len: "length ys = length xs"
    by (simp add: ys_def)
  have k: "k < length ys"
    using ne by (simp add: k_def len)
  have srt: "sorted ys"
    by (simp add: ys_def)
  have m: "sorted_middle xs = m"
    by (simp add: sorted_middle_def m_def ys_def k_def)
  have "m \<in> set ys"
    using k by (simp add: m_def)
  then have mem: "m \<in> set xs"
    by (simp add: ys_def)
  have above: "m \<le> x" if "x \<in> set (drop k ys)" for x
  proof -
    from that obtain i where i: "i < length (drop k ys)" and x: "x = drop k ys ! i"
      by (auto simp: in_set_conv_nth)
    from i have "k + i < length ys" by simp
    then have "ys ! k \<le> ys ! (k + i)"
      using srt by (simp add: sorted_nth_mono)
    with i x show ?thesis
      by (simp add: m_def)
  qed
  have below: "x \<le> m" if "x \<in> set (take (Suc k) ys)" for x
  proof -
    from that obtain i where i: "i < length (take (Suc k) ys)" and x: "x = take (Suc k) ys ! i"
      by (auto simp: in_set_conv_nth)
    from i have ik: "i \<le> k" by simp
    then have "ys ! i \<le> ys ! k"
      using srt k by (simp add: sorted_nth_mono)
    with i x show ?thesis
      by (simp add: m_def)
  qed
  have "filter (\<lambda>x. x < m) (drop k ys) = []"
    by (auto simp: filter_empty_conv not_less intro: above)
  then have "filter (\<lambda>x. x < m) ys = filter (\<lambda>x. x < m) (take k ys)"
    using append_take_drop_id[of k ys] filter_append[of "\<lambda>x. x < m" "take k ys" "drop k ys"]
    by simp
  then have "length (filter (\<lambda>x. x < m) ys) \<le> length (take k ys)"
    by (simp only: length_filter_le)
  then have "length (filter (\<lambda>x. x < m) ys) \<le> k"
    by simp
  then have lo: "length (filter (\<lambda>x. x < m) xs) \<le> k"
    by (simp add: ys_def length_filter_sort)
  have "filter (\<lambda>x. x \<le> m) (take (Suc k) ys) = take (Suc k) ys"
    using below by (simp add: filter_id_conv)
  moreover have "length (filter (\<lambda>x. x \<le> m) ys)
      = length (filter (\<lambda>x. x \<le> m) (take (Suc k) ys))
        + length (filter (\<lambda>x. x \<le> m) (drop (Suc k) ys))"
    using append_take_drop_id[of "Suc k" ys]
      filter_append[of "\<lambda>x. x \<le> m" "take (Suc k) ys" "drop (Suc k) ys"]
    by (metis length_append)
  ultimately have "Suc k \<le> length (filter (\<lambda>x. x \<le> m) ys)"
    using k by simp
  then have hi: "k < length (filter (\<lambda>x. x \<le> m) xs)"
    by (simp add: ys_def length_filter_sort)
  from mem lo hi show ?thesis
    by (simp add: m k_def)
qed

lemma new_Account_account_edge:
  "bindE (py_index (account_edge name revenue) ''node'') new_Account
     = Inr \<lparr>acc_Id = PStr name, acc_Name = value_of (PStr name), acc_Type = PNone,
            acc_Industry = PNone, acc_AnnualRevenue = value_of (PInt revenue),
            acc_NumberOfEmployees = PNone, acc_Phone = PNone, acc_Website = PNone,
            acc_BillingAddress = None\<rparr>"
  by (simp add: account_edge_def new_Account_def field_def value_of_def cong: bindE_cong_weak)

lemma trends_step_revenue_only:
  "revenue \<noteq> 0 \<Longrightarrow> \<not> float_overflows revenue \<Longrightarrow>
   trends_step W
     \<lparr>acc_Id = i, acc_Name = n, acc_Type = PNone, acc_Industry = PNone,
      acc_AnnualRevenue = value_of (PInt revenue), acc_NumberOfEmployees = PNone,
      acc_Phone = PNone, acc_Website = PNone, acc_BillingAddress = None\<rparr>
     (industries, revenues, employee_counts)
   = Inr (industries, revenues @ [of_int revenue], employee_counts)"
  by (simp add: trends_step_def truthy_value_def value_of_def cong: bindE_cong_weak)

lemma sorted_middle_10_20_30_40: "sorted_middle [10, 20, 30, 40 :: rat] = 30"
  by (simp add: sorted_middle_def)

lemma py_round_30: "py_round 30 2 = 30"
  by (simp add: py_round_def round_half_even_def)

section \<open>Facts about the transport\<close>





section \<open>Facts about the stage analysis\<close>

lemma sales_stage_where_clause_many:
  "2 \<le> length stages \<Longrightarrow> sales_stage_where_clause (Some stages) = []"
  by (cases stages) (auto simp: sales_stage_where_clause_def Let_def)

lemma sales_stage_body_echo:
  "sales_stage_body W q ex = Inl e \<Longrightarrow> sales_stage_body W q ex' = Inl e"
  by (auto simp: sales_stage_body_def bindE_def split: sum.splits prod.splits)

lemma sales_stage_body_same_analysis:
  assumes "sales_stage_body W q ex = Inr p" "sales_stage_body W q ex' = Inr p'"
  shows "py_index p ''summary'' = py_index p' ''summary''
       \<and> py_index p ''stage_analysis'' = py_index p' ''stage_analysis''"
  using assms
  by (auto simp: sales_stage_body_def bindE_def split: sum.splits prod.splits)

text \<open>The document of \<open>sales_stage_analysis\<close>: three fixed parts around the clause and the limit.\<close>

lemma sales_stage_query_parts:
  "sales_stage_query where_clause limit =
     concat
     [nl, ''            query SalesStageAnalysis {'', nl, ''                uiapi {'', nl,
      ''                    query {'', nl, ''                        Opportunity('', nl,
      ''                            '']
     @ where_clause
     @ concat [nl, ''                            first: '']
     @ str_int limit
     @ concat
     [nl, ''                            orderBy: { Amount: { order: DESC } }'', nl,
      ''                        ) {'', nl, ''                            edges {'', nl,
      ''                                node {'', nl,
      ''                                    Id'', nl,
      ''                                    Name { value }'', nl,
      ''                                    Amount { value displayValue }'', nl,
      ''                                    CloseDate { value }'', nl,
      ''                                    StageName { value }'', nl,
      ''                                    Probability { value }'', nl,
      ''                                    Account {'', nl,
      ''                                        Name { value }'', nl,
      ''                                        Industry { value }'', nl,
      ''                                    }'', nl,
      ''                                    Owner {'', nl,
      ''                                        Name { value }'', nl,
      ''                                    }'', nl, ''                                }'', nl,
      ''                            }'', nl, ''                            totalCount'', nl,
      ''                        }'', nl, ''                    }'', nl, ''                }'',
      nl, ''            }'', nl, ''            '']"
  by (simp add: sales_stage_query_def)

lemma digit_is_decimal: "d < 10 \<Longrightarrow> digit d \<in> set ''0123456789''"
proof -
  have "list_all (\<lambda>d. digit d \<in> set ''0123456789'') [0..<10]"
    by code_simp
  then show "d < 10 \<Longrightarrow> digit d \<in> set ''0123456789''"
    by (simp add: list_all_iff)
qed

lemma str_nat_decimal: "set (str_nat n) \<subseteq> set ''0123456789''"
proof (induction n rule: str_nat.induct)
  case (1 n)
  show ?case
  proof (cases "n div 10 = 0")
    case True
    then have "n < 10" by simp
    then show ?thesis
      using True digit_is_decimal[of n] by (subst str_nat.simps) simp
  next
    case False
    have "n mod 10 < 10" by simp
    then have "digit (n mod 10) \<in> set ''0123456789''"
      by (rule digit_is_decimal)
    then show ?thesis
      using False 1[OF False] by (subst str_nat.simps) simp
  qed
qed

lemma str_nat_not_empty: "str_nat n \<noteq> []"
  by (subst str_nat.simps) simp

lemma decimal_subset: "set ''0123456789'' \<subseteq> set ''-0123456789''"
  by auto

lemma str_int_decimal: "set (str_int i) \<subseteq> set ''-0123456789''"
proof (cases "0 \<le> i")
  case True
  then have e: "str_int i = str_nat (nat i)"
    by (simp add: str_int_def)
  show ?thesis
    unfolding e using str_nat_decimal decimal_subset by (rule subset_trans)
next
  case False
  then have e: "str_int i = CHR ''-'' # str_nat (nat (- i))"
    by (simp add: str_int_def)
  have m: "CHR ''-'' \<in> set ''-0123456789''"
    by simp
  have "set (str_nat (nat (- i))) \<subseteq> set ''-0123456789''"
    using str_nat_decimal decimal_subset by (rule subset_trans)
  with m have "insert CHR ''-'' (set (str_nat (nat (- i)))) \<subseteq> set ''-0123456789''"
    by (rule insert_subsetI)
  then show ?thesis
    by (simp only: e list.set(2)[of "CHR ''-''" "str_nat (nat (- i))"])
qed

lemma str_int_not_empty: "str_int i \<noteq> []"
  by (simp add: str_int_def str_nat_not_empty)

lemma not_sublist_append:
  assumes "\<not> sublist xs ys" and "\<not> sublist xs zs" and "ys \<noteq> [] \<Longrightarrow> last ys \<notin> set xs"
  shows "\<not> sublist xs (ys @ zs)"
proof
  assume "sublist xs (ys @ zs)"
  with assms(1,2) obtain xs1 xs2 where x: "xs = xs1 @ xs2" "suffix xs1 ys" "prefix xs2 zs"
    by (auto simp: sublist_append)
  show False
  proof (cases "xs1 = []")
    case True
    with x have "prefix xs zs" by simp
    then have "sublist xs zs" by (rule prefix_imp_sublist)
    with assms(2) show False by simp
  next
    case False
    from x(2) obtain ps where ys: "ys = ps @ xs1"
      by (auto simp: suffix_def)
    with False have "ys \<noteq> []" and "last ys = last xs1" by simp_all
    moreover have "last xs1 \<in> set xs"
      using False x(1) by simp
    ultimately show False
      using assms(3) by simp
  qed
qed

lemma sales_stage_query_without_where:
  "\<not> sublist ''where'' (sales_stage_query [] limit)"
proof -
  let ?A = "concat
     [nl, ''            query SalesStageAnalysis {'', nl, ''                uiapi {'', nl,
      ''                    query {'', nl, ''                        Opportunity('', nl,
      ''                            '']
     @ concat [nl, ''                            first: '']"
  let ?C = "concat
     [nl, ''                            orderBy: { Amount: { order: DESC } }'', nl,
      ''                        ) {'', nl, ''                            edges {'', nl,
      ''                                node {'', nl,
      ''                                    Id'', nl,
      ''                                    Name { value }'', nl,
      ''                                    Amount { value displayValue }'', nl,
      ''                                    CloseDate { value }'', nl,
      ''                                    StageName { value }'', nl,
      ''                                    Probability { value }'', nl,
      ''                                    Account {'', nl,
      ''                                        Name { value }'', nl,
      ''                                        Industry { value }'', nl,
      ''                                    }'', nl,
      ''                                    Owner {'', nl,
      ''                                        Name { value }'', nl,
      ''                                    }'', nl, ''                                }'', nl,
      ''                            }'', nl, ''                            totalCount'', nl,
      ''                        }'', nl, ''                    }'', nl, ''                }'',
      nl, ''            }'', nl, ''            '']"
  have a: "\<not> sublist ''where'' ?A"
    by code_simp
  have c: "\<not> sublist ''where'' ?C"
    by code_simp
  have la: "last ?A \<notin> set ''where''"
    by code_simp
  have d: "\<not> sublist ''where'' (str_int limit)"
  proof
    assume "sublist ''where'' (str_int limit)"
    then have "set ''where'' \<subseteq> set (str_int limit)"
      by (rule set_mono_sublist)
    with str_int_decimal[of limit] show False
      by auto
  qed
  have ld: "last (str_int limit) \<notin> set ''where''"
    using str_int_decimal[of limit] last_in_set[OF str_int_not_empty[of limit]]
    by auto
  have "\<not> sublist ''where'' (str_int limit @ ?C)"
    using d c ld by (rule not_sublist_append)
  with a have n: "\<not> sublist ''where'' (?A @ str_int limit @ ?C)"
    using la by (rule not_sublist_append)
  have e: "sales_stage_query [] limit = ?A @ str_int limit @ ?C"
    by (simp only: sales_stage_query_parts append_Nil append_assoc)
  show ?thesis
    unfolding e by (rule n)
qed

lemma sales_stage_query_holds_clause:
  "sublist where_clause (sales_stage_query where_clause limit)"
  unfolding sales_stage_query_parts by (rule sublist_appendI)

text \<open>The loop over the edges: the stage of every edge becomes a key of the metrics.\<close>

lemma key_eq_string: "key_eq k (PStr s) \<longleftrightarrow> k = PStr s"
  by (cases k) (simp_all add: key_eq_def)

lemma stage_update_key: "PStr s \<in> set (map fst (stage_update (PStr s) a w dl sm))"
  by (induction sm) (force simp: key_eq_string)+

lemma stage_update_keeps_keys:
  "k0 \<in> set (map fst sm) \<Longrightarrow> k0 \<in> set (map fst (stage_update k a w dl sm))"
  by (induction sm) force+

lemma stage_update_counts:
  "list_all (\<lambda>(k, c, t, wv, deals). 1 \<le> c) sm
     \<Longrightarrow> list_all (\<lambda>(k, c, t, wv, deals). 1 \<le> c) (stage_update k a w dl sm)"
  by (induction sm) auto

lemma sales_stage_step_result:
  assumes "sales_stage_step W edge (sm, tv) = Inr (sm', tv')"
  shows "\<exists>node stage a w dl. py_index edge ''node'' = Inr node
           \<and> get2 node ''StageName'' ''value'' (PStr ''Unknown'') = Inr stage
           \<and> sm' = stage_update stage a w dl sm"
proof -
  from assms obtain node where n: "py_index edge ''node'' = Inr node"
    by (cases "py_index edge ''node''") (auto simp: sales_stage_step_def)
  from assms n obtain stage where s: "get2 node ''StageName'' ''value'' (PStr ''Unknown'') = Inr stage"
    by (cases "get2 node ''StageName'' ''value'' (PStr ''Unknown'')")
       (auto simp: sales_stage_step_def)
  from assms n s obtain a where a: "float_field W node ''Amount'' = Inr a"
    by (cases "float_field W node ''Amount''") (auto simp: sales_stage_step_def)
  from assms n s a obtain pr where pr: "float_field W node ''Probability'' = Inr pr"
    by (cases "float_field W node ''Probability''") (auto simp: sales_stage_step_def)
  from assms n s a pr have h: "hashable stage"
    by (auto simp: sales_stage_step_def split: if_splits)
  from assms n s a pr h obtain nm where nm: "get2 node ''Name'' ''value'' (PStr []) = Inr nm"
    by (cases "get2 node ''Name'' ''value'' (PStr [])") (auto simp: sales_stage_step_def)
  from assms n s a pr h nm obtain ad
    where ad: "get2 node ''Amount'' ''displayValue'' (PStr []) = Inr ad"
    by (cases "get2 node ''Amount'' ''displayValue'' (PStr [])")
       (auto simp: sales_stage_step_def)
  from assms n s a pr h nm ad obtain ac
    where ac: "get3 node ''Account'' ''Name'' ''value'' (PStr []) = Inr ac"
    by (cases "get3 node ''Account'' ''Name'' ''value'' (PStr [])")
       (auto simp: sales_stage_step_def)
  from assms n s a pr h nm ad ac
  have "sm' = stage_update stage a (a * (pr / 100)) (nm, a, ad, pr, ac) sm"
    by (simp add: sales_stage_step_def)
  with n s show ?thesis
    by blast
qed

lemma foldE_sales_stage_keeps:
  assumes "foldE (sales_stage_step W) es (sm, tv) = Inr (sm', tv')"
  shows "(k0 \<in> set (map fst sm) \<longrightarrow> k0 \<in> set (map fst sm'))
       \<and> (list_all (\<lambda>(k, c, t, wv, deals). 1 \<le> c) sm
            \<longrightarrow> list_all (\<lambda>(k, c, t, wv, deals). 1 \<le> c) sm')"
  using assms
proof (induction es arbitrary: sm tv)
  case Nil
  then show ?case by simp
next
  case (Cons e es)
  from Cons.prems obtain sm1 tv1 where
    s: "sales_stage_step W e (sm, tv) = Inr (sm1, tv1)"
    and r: "foldE (sales_stage_step W) es (sm1, tv1) = Inr (sm', tv')"
    by (cases "sales_stage_step W e (sm, tv)") auto
  from sales_stage_step_result[OF s] obtain k a w dl where u: "sm1 = stage_update k a w dl sm"
    by blast
  have k1: "k0 \<in> set (map fst sm) \<longrightarrow> k0 \<in> set (map fst sm1)"
    unfolding u using stage_update_keeps_keys[of k0 sm k a w dl] by blast
  have c1: "list_all (\<lambda>(k, c, t, wv, deals). 1 \<le> c) sm
            \<longrightarrow> list_all (\<lambda>(k, c, t, wv, deals). 1 \<le> c) sm1"
    unfolding u using stage_update_counts[of sm k a w dl] by blast
  from Cons.IH[OF r] k1 c1 show ?case
    by blast
qed

lemma foldE_sales_stage_adds:
  assumes "foldE (sales_stage_step W) es (sm, tv) = Inr (sm', tv')"
    and "edge \<in> set es"
    and "py_index edge ''node'' = Inr node"
    and "get2 node ''StageName'' ''value'' (PStr ''Unknown'') = Inr (PStr s)"
  shows "PStr s \<in> set (map fst sm')"
  using assms(1,2)
proof (induction es arbitrary: sm tv)
  case Nil
  then show ?case by simp
next
  case (Cons e es)
  from Cons.prems(1) obtain sm1 tv1 where
    s: "sales_stage_step W e (sm, tv) = Inr (sm1, tv1)"
    and r: "foldE (sales_stage_step W) es (sm1, tv1) = Inr (sm', tv')"
    by (cases "sales_stage_step W e (sm, tv)") auto
  show ?case
  proof (cases "edge = e")
    case True
    from sales_stage_step_result[OF s] assms(3,4) True obtain a w dl
      where "sm1 = stage_update (PStr s) a w dl sm"
      by auto
    then have "PStr s \<in> set (map fst sm1)"
      by (simp only: stage_update_key)
    then show ?thesis
      using foldE_sales_stage_keeps[OF r, of "PStr s"] by blast
  next
    case False
    with Cons.prems(2) have "edge \<in> set es" by simp
    then show ?thesis
      using Cons.IH[OF r] by simp
  qed
qed

lemma stage_analysis_count:
  assumes k: "PStr s \<in> set (map fst sm)"
    and c: "list_all (\<lambda>(k, c, t, wv, deals). 1 \<le> c) sm"
  shows "\<exists>n. 1 \<le> n
     \<and> bindE (py_get (PDict (map stage_metrics_dict (sort_desc f sm))) s (PDict []))
         (\<lambda>v. py_get v ''count'' PNone) = Inr (PInt n)"
proof -
  let ?m = "map stage_metrics_dict (sort_desc f sm)"
  have st: "set (sort_desc f sm) = set sm"
    by (simp add: sort_desc_def)
  have fst_eq: "fst (stage_metrics_dict info) = fst info" for info
    by (cases info) (simp add: stage_metrics_dict_def)
  from k obtain info0 where "info0 \<in> set sm" "fst info0 = PStr s"
    by auto
  then have "stage_metrics_dict info0 \<in> set ?m" "fst (stage_metrics_dict info0) = PStr s"
    by (simp_all add: st fst_eq)
  then have "PStr s \<in> fst ` set ?m"
    by (metis image_eqI)
  then obtain v where v: "map_of ?m (PStr s) = Some v"
    by (cases "map_of ?m (PStr s)") (simp_all add: map_of_eq_None_iff)
  then have "(PStr s, v) \<in> set ?m"
    by (rule map_of_SomeD)
  then obtain info where i: "info \<in> set sm" and e: "stage_metrics_dict info = (PStr s, v)"
    by (auto simp: st)
  obtain k0 n t wv deals where info: "info = (k0, n, t, wv, deals)"
    by (cases info)
  from c i info have n: "1 \<le> n"
    by (auto simp: list_all_iff)
  from e info have "py_get v ''count'' PNone = Inr (PInt n)"
    by (auto simp: stage_metrics_dict_def)
  then show ?thesis
    using v n by auto
qed

lemma sales_stage_body_stage_analysis:
  assumes "sales_stage_body W query exclude_stages = Inr p"
    and "execute_query W query PNone = Inr result"
    and "edges_of result ''Opportunity'' = Inr (PList es)"
  shows "\<exists>sm tv. foldE (sales_stage_step W) es ([], PInt 0) = Inr (sm, tv)
     \<and> py_get p ''stage_analysis'' (PDict [])
         = Inr (PDict (map stage_metrics_dict (sort_desc (\<lambda>(k, c, t, wv, deals). t) sm)))"
proof -
  from assms obtain tc where tc: "total_count_of result ''Opportunity'' = Inr tc"
    by (cases "total_count_of result ''Opportunity''") (auto simp: sales_stage_body_def)
  from assms tc obtain acc where f: "foldE (sales_stage_step W) es ([], PInt 0) = Inr acc"
    by (cases "foldE (sales_stage_step W) es ([], PInt 0)") (auto simp: sales_stage_body_def)
  obtain sm tv where acc: "acc = (sm, tv)"
    by (cases acc)
  from assms tc f acc
  have "py_get p ''stage_analysis'' (PDict [])
         = Inr (PDict (map stage_metrics_dict (sort_desc (\<lambda>(k, c, t, wv, deals). t) sm)))"
    by (auto simp: sales_stage_body_def)
  with f acc show ?thesis
    by blast
qed

lemma sales_stage_body_includes_stage:
  assumes b: "sales_stage_body W query exclude_stages = Inr p"
    and x: "execute_query W query PNone = Inr result"
    and es: "edges_of result ''Opportunity'' = Inr (PList es)"
    and e: "edge \<in> set es"
    and n: "py_index edge ''node'' = Inr node"
    and s: "get2 node ''StageName'' ''value'' (PStr ''Unknown'') = Inr (PStr s)"
  shows "\<exists>n. 1 \<le> n \<and> get3 p ''stage_analysis'' s ''count'' PNone = Inr (PInt n)"
proof -
  from sales_stage_body_stage_analysis[OF b x es] obtain sm tv where
    f: "foldE (sales_stage_step W) es ([], PInt 0) = Inr (sm, tv)"
    and p: "py_get p ''stage_analysis'' (PDict [])
        = Inr (PDict (map stage_metrics_dict (sort_desc (\<lambda>(k, c, t, wv, deals). t) sm)))"
    by blast
  have k: "PStr s \<in> set (map fst sm)"
    using foldE_sales_stage_adds[OF f e n s] .
  have c: "list_all (\<lambda>(k, c, t, wv, deals). 1 \<le> c) sm"
    using foldE_sales_stage_keeps[OF f] by simp
  from stage_analysis_count[OF k c, of "\<lambda>(k, c, t, wv, deals). t"] p
  show ?thesis
    by (simp add: get3_def)
qed

lemma sales_stage_step_example:
  "\<not> float_overflows amount \<Longrightarrow>
   sales_stage_step W (opportunity_edge name amount (PDict [])) ([], PInt 0)
     = Inr ([(PStr ''Prospecting'', 1, of_int amount, of_int amount * (25 / 100),
              [(PStr name, of_int amount, PStr [], 25, PStr [])])],
            PFloat (of_int amount))"
  by (simp add: sales_stage_step_def opportunity_edge_def value_of_def float_field_def get2_def
        get3_def py_or_def add_float_def float_overflows_def cong: bindE_cong_weak)

lemma sales_stage_body_success:
  "sales_stage_body W query exclude_stages = Inr p \<Longrightarrow> py_get p ''success'' PNone = Inr (PBool True)"
  by (auto simp: sales_stage_body_def bindE_def split: sum.splits prod.splits)

lemma sales_stage_analysis_success:
  assumes "sales_stage_analysis W exclude_stages limit = Inr p"
    and "py_get p ''success'' PNone = Inr (PBool True)"
  shows "sales_stage_body W (sales_stage_query (sales_stage_where_clause exclude_stages) limit)
           exclude_stages = Inr p"
  using assms
  by (cases "sales_stage_body W (sales_stage_query (sales_stage_where_clause exclude_stages) limit)
               exclude_stages")
     (auto simp: sales_stage_analysis_def error_payload_def)

section \<open>The claims of the specification\<close>

text \<open>
  Claim C1 does not hold of the code. The tools \<open>get_opportunity\<close>, \<open>search_opportunities\<close>,
  \<open>search_accounts\<close> and \<open>analyze_account_trends\<close> call the client outside any handler:
  whenever the request of the client raises, the same exception leaves the tool, and no
  payload with \<open>success: false\<close> is returned.
\<close>

theorem client_exception_leaves_unguarded_tools:
  "(execute_query W get_opportunity_query (PDict [(PStr ''opportunityId'', PStr opportunity_id)])
       = Inl e
      \<longrightarrow> get_opportunity W opportunity_id = Inl e)
   \<and> (execute_query W (search_opportunities_query limit) PNone = Inl e
      \<longrightarrow> search_opportunities W stage min_amount limit = Inl e)
   \<and> (execute_query W (search_accounts_query limit) PNone = Inl e
      \<longrightarrow> search_accounts W industry limit = Inl e)
   \<and> (execute_query W (get_recent_accounts_query limit) PNone = Inl e
      \<longrightarrow> analyze_account_trends W limit = Inl e)"
  by (simp add: get_opportunity_def client_get_opportunity_def search_opportunities_def
        client_search_opportunities_def search_accounts_def client_search_accounts_def
        analyze_account_trends_def client_get_recent_accounts_def)

theorem client_exception_leaves_unguarded_tools_witness:
  "execute_query server_error_world get_opportunity_query
       (PDict [(PStr ''opportunityId'', PStr ''006A'')])
     = Inl (Exception ''API request failed: 500'')
   \<and> get_opportunity server_error_world ''006A'' = Inl (Exception ''API request failed: 500'')
   \<and> search_opportunities server_error_world ''Prospecting'' None 10
       = Inl (Exception ''API request failed: 500'')
   \<and> search_accounts server_error_world ''Energy'' 10 = Inl (Exception ''API request failed: 500'')
   \<and> analyze_account_trends server_error_world 20 = Inl (Exception ''API request failed: 500'')"
proof -
  have s: "str_nat 500 = ''500''"
    by code_simp
  have x: "execute_query server_error_world query variables
             = Inl (Exception ''API request failed: 500'')" for query variables
    by (simp add: execute_query_def server_error_world_def world_of_def is_success_def s)
  from x client_exception_leaves_unguarded_tools
         [of server_error_world "''006A''" "Exception ''API request failed: 500''" 10
             "''Prospecting''" None "''Energy''"]
       client_exception_leaves_unguarded_tools
         [of server_error_world "''006A''" "Exception ''API request failed: 500''" 20
             "''Prospecting''" None "''Energy''"]
  show ?thesis by blast
qed




text \<open>
  Claim C3 says that the median of \<open>[10, 20, 30, 40]\<close> is 20, the lower-middle element.
  The tools take \<open>sorted(xs)[len(xs)//2]\<close>, which is 30 for this input:
  \<open>analyze_account_trends\<close> on four accounts with these revenues reports the median
  revenue 30.0.
\<close>

theorem median_of_10_20_30_40_is_30:
  "sorted_middle [10, 20, 30, 40 :: rat] = 30
   \<and> sorted_middle [10, 20, 30, 40 :: rat] \<noteq> 20
   \<and> bindE (analyze_account_trends (world_of (ok_response four_accounts)) 20)
        (\<lambda>p. get2 p ''revenue_distribution'' ''median_revenue'' PNone) = Inr (PFloat 30)"
proof -
  let ?W = "world_of (ok_response four_accounts)"
  have accounts: "client_get_recent_accounts ?W 20
      = Inr (map (\<lambda>(name, revenue).
          \<lparr>acc_Id = PStr name, acc_Name = value_of (PStr name), acc_Type = PNone,
            acc_Industry = PNone, acc_AnnualRevenue = value_of (PInt revenue),
            acc_NumberOfEmployees = PNone, acc_Phone = PNone, acc_Website = PNone,
            acc_BillingAddress = None\<rparr>)
          [(''A'', 10), (''B'', 20), (''C'', 30), (''D'', 40)])"
    by (simp add: client_get_recent_accounts_def four_accounts_def execute_query_connection_body
          edges_of_connection_body new_Account_account_edge)
  have "bindE (analyze_account_trends ?W 20)
          (\<lambda>p. get2 p ''revenue_distribution'' ''median_revenue'' PNone)
        = Inr (PFloat (py_round (sorted_middle [10, 20, 30, 40]) 2))"
    by (simp add: analyze_account_trends_def accounts trends_step_revenue_only
          float_overflows_def revenue_distribution_def get2_def)
  then show ?thesis
    by (simp add: sorted_middle_10_20_30_40 py_round_30)
qed

text \<open>
  Claim C3, as the code has it. For a non-empty list the median of the tools is the
  element of rank \<open>len(xs)//2\<close>, counted from 0, in ascending order: it is an element of
  the list, at most \<open>len(xs)//2\<close> elements are smaller than it, and more than \<open>len(xs)//2\<close>
  elements are smaller than or equal to it. For an even length this is the upper of the
  two middle elements. It is what \<open>analyze_account_trends\<close> reports as \<open>median_revenue\<close>,
  rounded to two places, and as \<open>median_employees\<close>.
\<close>

theorem median_is_element_of_rank_half_length:
  fixes revenues :: "rat list" and employee_counts :: "int list"
  assumes "revenues \<noteq> []" and "employee_counts \<noteq> []"
  shows "py_index (revenue_distribution revenues) ''median_revenue''
           = Inr (PFloat (py_round (sorted_middle revenues) 2))
       \<and> sorted_middle revenues \<in> set revenues
       \<and> length (filter (\<lambda>x. x < sorted_middle revenues) revenues) \<le> length revenues div 2
       \<and> length revenues div 2 < length (filter (\<lambda>x. x \<le> sorted_middle revenues) revenues)
       \<and> py_index (size_analysis employee_counts) ''median_employees''
           = Inr (PInt (sorted_middle employee_counts))
       \<and> sorted_middle employee_counts \<in> set employee_counts
       \<and> length (filter (\<lambda>x. x < sorted_middle employee_counts) employee_counts)
           \<le> length employee_counts div 2
       \<and> length employee_counts div 2
           < length (filter (\<lambda>x. x \<le> sorted_middle employee_counts) employee_counts)"
proof -
  have a: "py_index (revenue_distribution revenues) ''median_revenue''
           = Inr (PFloat (py_round (sorted_middle revenues) 2))"
    by (simp add: revenue_distribution_def)
  have b: "py_index (size_analysis employee_counts) ''median_employees''
           = Inr (PInt (sorted_middle employee_counts))"
    by (simp add: size_analysis_def)
  from a b sorted_middle_rank[OF assms(1)] sorted_middle_rank[OF assms(2)]
  show ?thesis by simp
qed

theorem median_is_element_of_rank_half_length_witness:
  "[10, 20, 30, 40 :: rat] \<noteq> [] \<and> [120, 15, 3000 :: int] \<noteq> []
   \<and> py_index (revenue_distribution [10, 20, 30, 40]) ''median_revenue'' = Inr (PFloat 30)
   \<and> length (filter (\<lambda>x. x < (30 :: rat)) [10, 20, 30, 40]) \<le> length [10, 20, 30, 40 :: rat] div 2
   \<and> length [10, 20, 30, 40 :: rat] div 2 < length (filter (\<lambda>x. x \<le> (30 :: rat)) [10, 20, 30, 40])
   \<and> py_index (size_analysis [120, 15, 3000]) ''median_employees'' = Inr (PInt 120)"
proof -
  have s: "sorted_middle [120, 15, 3000 :: int] = 120"
    by (simp add: sorted_middle_def)
  from median_is_element_of_rank_half_length[of "[10, 20, 30, 40]" "[120, 15, 3000]"]
  show ?thesis
    by (simp add: sorted_middle_10_20_30_40 py_round_30 s)
qed

text \<open>
  Claim C4 does not hold of the code. The stage of \<open>query_opportunities\<close>, the industry of
  \<open>query_accounts\<close> and the excluded stage of \<open>sales_stage_analysis\<close> are put between two
  double quotes and concatenated into the document as they are, nothing escaped, and the
  request carries no variables. Only \<open>get_opportunity\<close> sends a fixed document and its
  argument as a bound variable.
\<close>

theorem filter_values_are_concatenated_raw:
  "(stage \<noteq> [] \<longrightarrow>
      query_opportunities (echoing W) [] stage None limit
        = Inr (error_payload (Exn ''Sent''
            (query_opportunities_query
               (''where: { StageName: { eq: '' @ dq @ stage @ dq @ '' } }'') limit))))
   \<and> (industry \<noteq> [] \<longrightarrow>
      query_accounts (echoing W) limit industry
        = Inr (error_payload (Exn ''Sent''
            (query_accounts_query
               (''where: { Industry: { eq: '' @ dq @ industry @ dq @ '' } }'') limit))))
   \<and> sales_stage_analysis (echoing W) (Some [stage]) limit
        = Inr (error_payload (Exn ''Sent''
            (sales_stage_query
               (''where: { StageName: { ne: '' @ dq @ stage @ dq @ '' } }'') limit)))
   \<and> get_opportunity (echoing W) opportunity_id = Inl (Exn ''Sent'' get_opportunity_query)"
proof -
  have x: "execute_query (echoing W) query variables = Inl (Exn ''Sent'' query)"
    for query variables
    by (simp add: execute_query_def echoing_def)
  have a: "query_opportunities (echoing W) [] stage None limit
        = Inr (error_payload (Exn ''Sent''
            (query_opportunities_query
               (''where: { StageName: { eq: '' @ dq @ stage @ dq @ '' } }'') limit)))"
    if "stage \<noteq> []"
    using that
    by (simp add: query_opportunities_def query_opportunities_body_def x where_clause_of_def
          stage_condition_def)
  have b: "query_accounts (echoing W) limit industry
        = Inr (error_payload (Exn ''Sent''
            (query_accounts_query
               (''where: { Industry: { eq: '' @ dq @ industry @ dq @ '' } }'') limit)))"
    if "industry \<noteq> []"
    using that
    by (simp add: query_accounts_def query_accounts_body_def x query_accounts_where_clause_def)
  have c: "sales_stage_analysis (echoing W) (Some [stage]) limit
        = Inr (error_payload (Exn ''Sent''
            (sales_stage_query
               (''where: { StageName: { ne: '' @ dq @ stage @ dq @ '' } }'') limit)))"
    by (simp add: sales_stage_analysis_def sales_stage_body_def x sales_stage_where_clause_def
          stage_ne_condition_def)
  have d: "get_opportunity (echoing W) opportunity_id = Inl (Exn ''Sent'' get_opportunity_query)"
    by (simp add: get_opportunity_def client_get_opportunity_def x)
  from a b c d show ?thesis by blast
qed

theorem filter_values_are_concatenated_raw_witness:
  "injected_stage \<noteq> []
   \<and> query_opportunities (echoing server_error_world) [] injected_stage None 50
       = Inr (error_payload (Exn ''Sent''
           (query_opportunities_query
              (''where: { StageName: { eq: '' @ dq @ ''Closed Won'' @ dq
                 @ '' }, Amount: { gte: 1000000 }, Name: { ne: '' @ dq @ dq @ '' } }'') 50)))
   \<and> query_accounts (echoing server_error_world) 50 injected_stage
       = Inr (error_payload (Exn ''Sent''
           (query_accounts_query
              (''where: { Industry: { eq: '' @ dq @ ''Closed Won'' @ dq
                 @ '' }, Amount: { gte: 1000000 }, Name: { ne: '' @ dq @ dq @ '' } }'') 50)))"
proof -
  have n: "injected_stage \<noteq> []"
    by (simp add: injected_stage_def)
  from n filter_values_are_concatenated_raw
           [of injected_stage server_error_world 50 injected_stage "''006A''"]
  have "query_opportunities (echoing server_error_world) [] injected_stage None 50
        = Inr (error_payload (Exn ''Sent''
            (query_opportunities_query
               (''where: { StageName: { eq: '' @ dq @ injected_stage @ dq @ '' } }'') 50)))"
    and "query_accounts (echoing server_error_world) 50 injected_stage
        = Inr (error_payload (Exn ''Sent''
            (query_accounts_query
               (''where: { Industry: { eq: '' @ dq @ injected_stage @ dq @ '' } }'') 50)))"
    by blast+
  then show ?thesis
    using n by (simp add: injected_stage_def)
qed

text \<open>
  Claim C5 does not hold of the code. An opportunity whose \<open>Account\<close> relation is present
  with the value null makes \<open>node.get("Account", {})\<close> return \<open>None\<close>, the next \<open>.get\<close>
  raises AttributeError, and \<open>high_value_pipeline_analysis\<close> returns the error payload
  instead of an aggregate in which the missing account is replaced by the defaults. On
  the empty sequence the tool does return the defined empty result.
\<close>

theorem null_account_breaks_pipeline_analysis:
  "high_value_pipeline_analysis (world_of (ok_response null_account_body)) 50000 50
     = Inr (PDict [(PStr ''success'', PBool False),
                   (PStr ''error'',
                      PStr (sq @ ''NoneType'' @ sq @ '' object has no attribute '' @ sq @ ''get'' @ sq)),
                   (PStr ''error_type'', PStr ''AttributeError'')])
   \<and> bindE (high_value_pipeline_analysis
              (world_of (ok_response (connection_body ''Opportunity'' [] 0))) 50000 50)
        (\<lambda>p. py_index p ''pipeline_summary'')
     = Inr (PDict [(PStr ''total_opportunities'', PInt 0),
                   (PStr ''total_pipeline_value'', PInt 0),
                   (PStr ''weighted_pipeline_value'', PInt 0),
                   (PStr ''average_deal_size'', PInt 0),
                   (PStr ''average_probability'', PInt 0)])"
proof -
  have "high_value_pipeline_body (world_of (ok_response null_account_body)) 50000 50
          = Inl (AttributeError PNone ''get'')"
    by (simp add: high_value_pipeline_body_def null_account_body_def execute_query_connection_body
          edges_of_connection_body total_count_of_connection_body pipeline_step_null_account
          float_overflows_def)
  then have a: "high_value_pipeline_analysis (world_of (ok_response null_account_body)) 50000 50
     = Inr (PDict [(PStr ''success'', PBool False),
                   (PStr ''error'',
                      PStr (sq @ ''NoneType'' @ sq @ '' object has no attribute '' @ sq @ ''get'' @ sq)),
                   (PStr ''error_type'', PStr ''AttributeError'')])"
    by (simp add: high_value_pipeline_analysis_def error_payload_def AttributeError_def)
  have b: "bindE (high_value_pipeline_analysis
              (world_of (ok_response (connection_body ''Opportunity'' [] 0))) 50000 50)
        (\<lambda>p. py_index p ''pipeline_summary'')
     = Inr (PDict [(PStr ''total_opportunities'', PInt 0),
                   (PStr ''total_pipeline_value'', PInt 0),
                   (PStr ''weighted_pipeline_value'', PInt 0),
                   (PStr ''average_deal_size'', PInt 0),
                   (PStr ''average_probability'', PInt 0)])"
    by (simp add: high_value_pipeline_analysis_def high_value_pipeline_body_def
          execute_query_connection_body edges_of_connection_body total_count_of_connection_body
          pipeline_init_def mean_or_zero_def)
  from a b show ?thesis by (rule conjI)
qed

text \<open>
  Claim C6. For a date \<open>now\<close> of the calendar, the window of \<open>this_quarter\<close> starts on
  day 1 of month 1, 4, 7 or 10 of the year of \<open>now\<close>, ends on the last day of the month two
  months later, and contains \<open>now\<close>: it is the quarter of \<open>now\<close>. When \<open>now\<close> lies in
  January, the window of \<open>last_quarter\<close> runs from 1 October to 31 December of the year
  before. The \<open>datetime\<close> arithmetic of the resolver stays in range unless \<open>now\<close> lies in
  the last quarter of the year 9999 (for \<open>this_quarter\<close>) or in the year 1 (for
  \<open>last_quarter\<close>); these dates are excluded.
\<close>

theorem quarter_windows_aligned:
  assumes "valid_date now"
  shows "(year now \<le> 9998 \<or> month now \<le> 9 \<longrightarrow>
           (\<exists>s e. date_range_bounds THIS_QUARTER now = Inr (s, e)
                \<and> get_date_range THIS_QUARTER now = Inr (strftime_ymd s, strftime_ymd e)
                \<and> day s = 1 \<and> month s \<in> {1, 4, 7, 10} \<and> year s = year now
                \<and> e = Date (year now) (month s + 2) (days_in_month (year now) (month s + 2))
                \<and> date_le s now \<and> date_le now e))
       \<and> (month now = 1 \<and> 2 \<le> year now \<longrightarrow>
             date_range_bounds LAST_QUARTER now
               = Inr (Date (year now - 1) 10 1, Date (year now - 1) 12 31)
           \<and> get_date_range LAST_QUARTER now
               = Inr (strftime_ymd (Date (year now - 1) 10 1), strftime_ymd (Date (year now - 1) 12 31)))"
proof (intro conjI impI)
  assume rng: "year now \<le> 9998 \<or> month now \<le> 9"
  define qs where "qs = (month now - 1) div 3 * 3 + 1"
  have m: "1 \<le> month now" "month now \<le> 12"
    and d: "1 \<le> day now" "day now \<le> days_in_month (year now) (month now)"
    using assms by (auto simp: valid_date_def valid_month_day_def)
  have qc: "qs = 1 \<or> qs = 4 \<or> qs = 7 \<or> qs = 10"
    unfolding qs_def using quarter_start_cases[OF m] .
  have ql: "qs \<le> month now" "month now \<le> qs + 2"
    unfolding qs_def using quarter_start_le[OF m] by auto
  have e3: "(month now - 1) div 3 * 3 + 3 = (month now - 1) div 3 * 3 + 1 + 2" by simp
  have b: "date_range_bounds THIS_QUARTER now =
      Inr (Date (year now) qs 1, Date (year now) (qs + 2) (days_in_month (year now) (qs + 2)))"
    using this_quarter_bounds[OF assms rng] unfolding e3 qs_def[symmetric] .
  have le1: "date_le (Date (year now) qs 1) now"
    using ql d by (cases now) (auto simp: date_le_def)
  have le2: "date_le now (Date (year now) (qs + 2) (days_in_month (year now) (qs + 2)))"
    using ql d by (cases now) (auto simp: date_le_def)
  show "\<exists>s e. date_range_bounds THIS_QUARTER now = Inr (s, e)
                \<and> get_date_range THIS_QUARTER now = Inr (strftime_ymd s, strftime_ymd e)
                \<and> day s = 1 \<and> month s \<in> {1, 4, 7, 10} \<and> year s = year now
                \<and> e = Date (year now) (month s + 2) (days_in_month (year now) (month s + 2))
                \<and> date_le s now \<and> date_le now e"
    using qc le1 le2
    by (intro exI[of _ "Date (year now) qs 1"]
              exI[of _ "Date (year now) (qs + 2) (days_in_month (year now) (qs + 2))"])
       (simp add: get_date_range_def b del: date_range_bounds.simps)
next
  assume jan: "month now = 1 \<and> 2 \<le> year now"
  then have b: "date_range_bounds LAST_QUARTER now
               = Inr (Date (year now - 1) 10 1, Date (year now - 1) 12 31)"
    using last_quarter_bounds[OF assms] by simp
  then show "date_range_bounds LAST_QUARTER now
               = Inr (Date (year now - 1) 10 1, Date (year now - 1) 12 31)" .
  show "get_date_range LAST_QUARTER now
               = Inr (strftime_ymd (Date (year now - 1) 10 1), strftime_ymd (Date (year now - 1) 12 31))"
    by (simp add: get_date_range_def b del: date_range_bounds.simps)
qed

theorem quarter_windows_aligned_witness:
  "valid_date (Date 2026 11 4)
   \<and> date_range_bounds THIS_QUARTER (Date 2026 11 4) = Inr (Date 2026 10 1, Date 2026 12 31)
   \<and> get_date_range THIS_QUARTER (Date 2026 11 4) = Inr (''2026-10-01'', ''2026-12-31'')
   \<and> valid_date (Date 2027 1 15)
   \<and> date_range_bounds LAST_QUARTER (Date 2027 1 15) = Inr (Date 2026 10 1, Date 2026 12 31)
   \<and> get_date_range LAST_QUARTER (Date 2027 1 15) = Inr (''2026-10-01'', ''2026-12-31'')"
proof -
  have v1: "valid_date (Date 2026 11 4)" and v2: "valid_date (Date 2027 1 15)"
    by (simp_all add: valid_date_def valid_month_day_def days_in_month_def)
  have s: "strftime_ymd (Date 2026 10 1) = ''2026-10-01''" "strftime_ymd (Date 2026 12 31) = ''2026-12-31''"
    by code_simp+
  from quarter_windows_aligned[OF v1] quarter_windows_aligned[OF v2] v1 v2 s
  show ?thesis
    by (auto simp: days_in_month_def)
qed

text \<open>
  Claim C7. For each of the eight supported periods and every date \<open>now\<close> of the years 2
  to 9998 (where the \<open>datetime\<close> arithmetic of the resolver cannot leave Python's range of
  years), the resolver returns a window whose start and end are dates of the calendar, with
  the start not after the end. The lookup \<open>DateRange(...)\<close> accepts the name of each of the
  eight periods, and every name that becomes one of them once put in lower case with
  spaces replaced by underscores: for such a name \<open>query_opportunities\<close> resolves the window
  of that period at today's date and sends a document whose \<open>where\<close> clause holds its
  start and end. For a period name that is given and, once put in lower case
  with spaces replaced by underscores, is none of the eight names, the lookup
  \<open>DateRange(...)\<close> raises ValueError and \<open>query_opportunities\<close> returns the invalid-period
  payload, which lists the eight valid names; no exception leaves the tool.
\<close>

theorem period_windows_valid_and_invalid_period_reported:
  "(valid_date now \<and> 2 \<le> year now \<and> year now \<le> 9998 \<longrightarrow>
      (\<exists>s e. date_range_bounds r now = Inr (s, e)
           \<and> get_date_range r now = Inr (strftime_ymd s, strftime_ymd e)
           \<and> valid_date s \<and> valid_date e \<and> date_le s e))
   \<and> (time_period \<noteq> []
        \<and> replace_space (py_lower time_period) \<notin> DateRange_value ` set DateRange_members \<longrightarrow>
      (\<exists>msg. DateRange_of (replace_space (py_lower time_period)) = Inl (ValueError msg))
      \<and> query_opportunities W time_period stage min_amount limit
          = Inr (invalid_period_payload time_period)
      \<and> py_index (invalid_period_payload time_period) ''error''
          = Inr (PStr (''Invalid time period: '' @ time_period))
      \<and> py_index (invalid_period_payload time_period) ''valid_options''
          = Inr (PList (map PStr [''this_week'', ''last_week'', ''this_month'', ''last_month'',
                                   ''this_quarter'', ''last_quarter'', ''this_year'', ''last_year''])))
   \<and> DateRange_of (replace_space (py_lower (DateRange_value r))) = Inr r
   \<and> (replace_space (py_lower name) = DateRange_value r
        \<and> valid_date (today W) \<and> 2 \<le> year (today W) \<and> year (today W) \<le> 9998 \<longrightarrow>
      DateRange_of (replace_space (py_lower name)) = Inr r
      \<and> (\<exists>s e. date_range_bounds r (today W) = Inr (s, e)
             \<and> valid_date s \<and> valid_date e \<and> date_le s e
             \<and> close_date_condition W name
                 = Inr (''CloseDate: { range: { gte: '' @ dq @ strftime_ymd s @ dq
                        @ '', lte: '' @ dq @ strftime_ymd e @ dq @ '' } }'')
             \<and> query_opportunities (echoing W) name [] None limit
                 = Inr (error_payload (Exn ''Sent''
                     (query_opportunities_query
                        (''where: { CloseDate: { range: { gte: '' @ dq @ strftime_ymd s @ dq
                           @ '', lte: '' @ dq @ strftime_ymd e @ dq @ '' } } }'') limit)))))"
proof (intro conjI impI)
  assume a: "valid_date now \<and> 2 \<le> year now \<and> year now \<le> 9998"
  then obtain s e where w: "date_range_bounds r now = Inr (s, e)"
      "valid_date s" "valid_date e" "date_le s e"
    using window_ok[of now r] by blast
  show "\<exists>s e. date_range_bounds r now = Inr (s, e)
           \<and> get_date_range r now = Inr (strftime_ymd s, strftime_ymd e)
           \<and> valid_date s \<and> valid_date e \<and> date_le s e"
    using w by (intro exI[of _ s] exI[of _ e]) (simp add: get_date_range_def)
next
  assume b: "time_period \<noteq> []
        \<and> replace_space (py_lower time_period) \<notin> DateRange_value ` set DateRange_members"
  then have dr: "DateRange_of (replace_space (py_lower time_period))
      = Inl (ValueError (sq @ replace_space (py_lower time_period) @ sq @ '' is not a valid DateRange''))"
    using DateRange_of_unsupported by blast
  then show "\<exists>msg. DateRange_of (replace_space (py_lower time_period)) = Inl (ValueError msg)"
    by blast
  have "close_date_condition W time_period
      = Inl (ValueError (sq @ replace_space (py_lower time_period) @ sq @ '' is not a valid DateRange''))"
    by (simp add: close_date_condition_def dr)
  then show "query_opportunities W time_period stage min_amount limit
          = Inr (invalid_period_payload time_period)"
    using b by (simp add: query_opportunities_def ValueError_def)
  show "py_index (invalid_period_payload time_period) ''error''
          = Inr (PStr (''Invalid time period: '' @ time_period))"
    by (simp add: invalid_period_payload_def)
  show "py_index (invalid_period_payload time_period) ''valid_options''
          = Inr (PList (map PStr [''this_week'', ''last_week'', ''this_month'', ''last_month'',
                                   ''this_quarter'', ''last_quarter'', ''this_year'', ''last_year'']))"
    by (simp add: invalid_period_payload_def DateRange_members_def)
next
  show "DateRange_of (replace_space (py_lower (DateRange_value r))) = Inr r"
    by (simp add: DateRange_value_normal DateRange_of_supported)
next
  assume c: "replace_space (py_lower name) = DateRange_value r
        \<and> valid_date (today W) \<and> 2 \<le> year (today W) \<and> year (today W) \<le> 9998"
  then show dr: "DateRange_of (replace_space (py_lower name)) = Inr r"
    by (simp add: DateRange_of_supported)
  from c have ne: "name \<noteq> []"
    using DateRange_value_not_empty[of r] by (auto simp: replace_space_def py_lower_def)
  from c obtain s e where w: "date_range_bounds r (today W) = Inr (s, e)"
      "valid_date s" "valid_date e" "date_le s e"
    using window_ok[of "today W" r] by blast
  have cd: "close_date_condition W' name
                 = Inr (''CloseDate: { range: { gte: '' @ dq @ strftime_ymd s @ dq
                        @ '', lte: '' @ dq @ strftime_ymd e @ dq @ '' } }'')"
    if "today W' = today W" for W'
    using that by (simp add: close_date_condition_def dr get_date_range_def w)
  have t: "today (echoing W) = today W"
    by (simp add: echoing_def)
  have q: "query_opportunities (echoing W) name [] None limit
                 = Inr (error_payload (Exn ''Sent''
                     (query_opportunities_query
                        (''where: { CloseDate: { range: { gte: '' @ dq @ strftime_ymd s @ dq
                           @ '', lte: '' @ dq @ strftime_ymd e @ dq @ '' } } }'') limit)))"
    using ne
    by (simp add: query_opportunities_def cd[OF t] where_clause_of_def
          query_opportunities_body_def execute_query_echoing)
  show "\<exists>s e. date_range_bounds r (today W) = Inr (s, e)
             \<and> valid_date s \<and> valid_date e \<and> date_le s e
             \<and> close_date_condition W name
                 = Inr (''CloseDate: { range: { gte: '' @ dq @ strftime_ymd s @ dq
                        @ '', lte: '' @ dq @ strftime_ymd e @ dq @ '' } }'')
             \<and> query_opportunities (echoing W) name [] None limit
                 = Inr (error_payload (Exn ''Sent''
                     (query_opportunities_query
                        (''where: { CloseDate: { range: { gte: '' @ dq @ strftime_ymd s @ dq
                           @ '', lte: '' @ dq @ strftime_ymd e @ dq @ '' } } }'') limit)))"
    using w cd[OF refl] q by (intro exI[of _ s] exI[of _ e]) simp
qed

theorem period_windows_valid_and_invalid_period_reported_witness:
  "valid_date (Date 2026 11 4)
   \<and> date_range_bounds LAST_WEEK (Date 2026 11 4) = Inr (Date 2026 10 26, Date 2026 11 1)
   \<and> valid_date (Date 2026 10 26) \<and> valid_date (Date 2026 11 1)
   \<and> date_le (Date 2026 10 26) (Date 2026 11 1)
   \<and> replace_space (py_lower ''Next Quarter'') \<notin> DateRange_value ` set DateRange_members
   \<and> query_opportunities (world_of (PostRaised (Exn [] []))) ''Next Quarter'' ''Closed Won'' None 50
       = Inr (PDict [(PStr ''error'', PStr ''Invalid time period: Next Quarter''),
                     (PStr ''valid_options'',
                      PList [PStr ''this_week'', PStr ''last_week'', PStr ''this_month'',
                             PStr ''last_month'', PStr ''this_quarter'', PStr ''last_quarter'',
                             PStr ''this_year'', PStr ''last_year''])])
   \<and> replace_space (py_lower ''Last Week'') = DateRange_value LAST_WEEK
   \<and> DateRange_of (replace_space (py_lower ''Last Week'')) = Inr LAST_WEEK
   \<and> close_date_condition (world_of (PostRaised (Exn [] []))) ''Last Week''
       = Inr (''CloseDate: { range: { gte: '' @ dq @ ''2026-10-26'' @ dq
              @ '', lte: '' @ dq @ ''2026-11-01'' @ dq @ '' } }'')
   \<and> query_opportunities (echoing (world_of (PostRaised (Exn [] [])))) ''Last Week'' [] None 50
       = Inr (error_payload (Exn ''Sent''
           (query_opportunities_query
              (''where: { CloseDate: { range: { gte: '' @ dq @ ''2026-10-26'' @ dq
                 @ '', lte: '' @ dq @ ''2026-11-01'' @ dq @ '' } } }'') 50)))"
proof -
  let ?W = "world_of (PostRaised (Exn [] []))"
  have v: "valid_date (Date 2026 11 4) \<and> 2 \<le> year (Date 2026 11 4) \<and> year (Date 2026 11 4) \<le> 9998"
    by (simp add: valid_date_def valid_month_day_def days_in_month_def)
  have lw: "date_range_bounds LAST_WEEK (Date 2026 11 4) = Inr (Date 2026 10 26, Date 2026 11 1)"
    by code_simp
  have n: "replace_space (py_lower ''Next Quarter'') = ''next_quarter''"
    by code_simp
  have u: "''Next Quarter'' \<noteq> []
     \<and> replace_space (py_lower ''Next Quarter'') \<notin> DateRange_value ` set DateRange_members"
    unfolding n by (simp add: DateRange_members_def)
  have l: "replace_space (py_lower ''Last Week'') = DateRange_value LAST_WEEK"
    by code_simp
  have t: "today ?W = Date 2026 11 4"
    by (simp add: world_of_def)
  have f: "strftime_ymd (Date 2026 10 26) = ''2026-10-26''" "strftime_ymd (Date 2026 11 1) = ''2026-11-01''"
    by code_simp+
  note inst = period_windows_valid_and_invalid_period_reported
         [of "Date 2026 11 4" LAST_WEEK "''Next Quarter''" ?W "''Closed Won''" None 50 "''Last Week''"]
  from inst v u lw
  have first: "valid_date (Date 2026 11 4)
   \<and> date_range_bounds LAST_WEEK (Date 2026 11 4) = Inr (Date 2026 10 26, Date 2026 11 1)
   \<and> valid_date (Date 2026 10 26) \<and> valid_date (Date 2026 11 1)
   \<and> date_le (Date 2026 10 26) (Date 2026 11 1)
   \<and> replace_space (py_lower ''Next Quarter'') \<notin> DateRange_value ` set DateRange_members
   \<and> query_opportunities ?W ''Next Quarter'' ''Closed Won'' None 50
       = Inr (PDict [(PStr ''error'', PStr ''Invalid time period: Next Quarter''),
                     (PStr ''valid_options'',
                      PList [PStr ''this_week'', PStr ''last_week'', PStr ''this_month'',
                             PStr ''last_month'', PStr ''this_quarter'', PStr ''last_quarter'',
                             PStr ''this_year'', PStr ''last_year''])])"
    by (auto simp: invalid_period_payload_def DateRange_members_def)
  from inst l v t
  have dr: "DateRange_of (replace_space (py_lower ''Last Week'')) = Inr LAST_WEEK"
    and ex: "\<exists>s e. date_range_bounds LAST_WEEK (today ?W) = Inr (s, e)
             \<and> valid_date s \<and> valid_date e \<and> date_le s e
             \<and> close_date_condition ?W ''Last Week''
                 = Inr (''CloseDate: { range: { gte: '' @ dq @ strftime_ymd s @ dq
                        @ '', lte: '' @ dq @ strftime_ymd e @ dq @ '' } }'')
             \<and> query_opportunities (echoing ?W) ''Last Week'' [] None 50
                 = Inr (error_payload (Exn ''Sent''
                     (query_opportunities_query
                        (''where: { CloseDate: { range: { gte: '' @ dq @ strftime_ymd s @ dq
                           @ '', lte: '' @ dq @ strftime_ymd e @ dq @ '' } } }'') 50)))"
    by simp_all
  from ex have second: "close_date_condition ?W ''Last Week''
       = Inr (''CloseDate: { range: { gte: '' @ dq @ ''2026-10-26'' @ dq
              @ '', lte: '' @ dq @ ''2026-11-01'' @ dq @ '' } }'')
   \<and> query_opportunities (echoing ?W) ''Last Week'' [] None 50
       = Inr (error_payload (Exn ''Sent''
           (query_opportunities_query
              (''where: { CloseDate: { range: { gte: '' @ dq @ ''2026-10-26'' @ dq
                 @ '', lte: '' @ dq @ ''2026-11-01'' @ dq @ '' } } }'') 50)))"
    unfolding t lw using f by auto
  from first l dr second show ?thesis
    by blast
qed

text \<open>
  Claim C8. In one and the same environment, the result of \<open>search_opportunities\<close> does not
  depend on its \<open>stage\<close> and \<open>min_amount\<close> arguments, and the result of \<open>search_accounts\<close>
  does not depend on its \<open>industry\<close> argument, for the tools and for the client methods they
  call; the query document sent is a function of \<open>limit\<close> alone.
\<close>

theorem search_filters_have_no_effect:
  "search_opportunities W stage min_amount limit = search_opportunities W stage' min_amount' limit
   \<and> client_search_opportunities W stage_filter min_amount limit
       = client_search_opportunities W stage_filter' min_amount' limit
   \<and> client_search_opportunities W stage_filter min_amount limit
       = bindE (execute_query W (search_opportunities_query limit) PNone) (\<lambda>result.
         bindE (edges_of result ''Opportunity'') (\<lambda>edges.
         bindE (py_iter edges) (mapE (\<lambda>edge. bindE (py_index edge ''node'') new_Opportunity))))
   \<and> search_accounts W industry limit = search_accounts W industry' limit
   \<and> client_search_accounts W industry_filter limit = client_search_accounts W industry_filter' limit
   \<and> client_search_accounts W industry_filter limit
       = bindE (execute_query W (search_accounts_query limit) PNone) (\<lambda>result.
         bindE (edges_of result ''Account'') (\<lambda>edges.
         bindE (py_iter edges) (mapE (\<lambda>edge. bindE (py_index edge ''node'') new_Account))))"
  by (simp add: search_opportunities_def client_search_opportunities_def
        search_accounts_def client_search_accounts_def)

text \<open>
  Claim C9. \<open>sales_stage_analysis\<close> puts a \<open>where\<close> clause in its query exactly when
  \<open>exclude_stages\<close> holds one stage name, and then the document holds the condition on
  that stage. With two stage names or more the clause is empty: the document sent is the
  one of a call that excludes nothing, the word \<open>where\<close> does not occur in it, and the
  summary and the stage analysis returned are those of a call that excludes nothing.
  Nothing is filtered afterwards either: when the response holds an opportunity in one of
  the excluded stages and the tool reports success, that stage is a key of
  \<open>stage_analysis\<close>, with a count of at least one.
\<close>

theorem exclusion_only_for_one_stage:
  "(sales_stage_where_clause exclude_stages \<noteq> [] \<longleftrightarrow> (\<exists>s. exclude_stages = Some [s]))
   \<and> sublist (''where: { StageName: { ne: '' @ dq @ stage @ dq @ '' } }'')
        (sales_stage_query (sales_stage_where_clause (Some [stage])) limit)
   \<and> (2 \<le> length stages \<longrightarrow>
        sales_stage_where_clause (Some stages) = []
      \<and> sales_stage_query (sales_stage_where_clause (Some stages)) limit
          = sales_stage_query (sales_stage_where_clause None) limit
      \<and> sales_stage_analysis (echoing W) (Some stages) limit
          = Inr (error_payload (Exn ''Sent'' (sales_stage_query [] limit)))
      \<and> \<not> sublist ''where'' (sales_stage_query [] limit)
      \<and> (\<exists>p p'. sales_stage_analysis W (Some stages) limit = Inr p
               \<and> sales_stage_analysis W None limit = Inr p'
               \<and> py_index p ''summary'' = py_index p' ''summary''
               \<and> py_index p ''stage_analysis'' = py_index p' ''stage_analysis'')
      \<and> (s \<in> set stages
           \<and> execute_query W (sales_stage_query [] limit) PNone = Inr result
           \<and> edges_of result ''Opportunity'' = Inr (PList es)
           \<and> edge \<in> set es
           \<and> py_index edge ''node'' = Inr node
           \<and> get2 node ''StageName'' ''value'' (PStr ''Unknown'') = Inr (PStr s)
           \<and> sales_stage_analysis W (Some stages) limit = Inr payload
           \<and> py_get payload ''success'' PNone = Inr (PBool True)
         \<longrightarrow> (\<exists>n. 1 \<le> n \<and> get3 payload ''stage_analysis'' s ''count'' PNone = Inr (PInt n))))"
proof (intro conjI impI)
  show "sales_stage_where_clause exclude_stages \<noteq> [] \<longleftrightarrow> (\<exists>s. exclude_stages = Some [s])"
  proof (cases exclude_stages)
    case None
    then show ?thesis by (simp add: sales_stage_where_clause_def)
  next
    case (Some stages)
    then show ?thesis
      by (cases stages; cases "tl stages")
         (auto simp: sales_stage_where_clause_def Let_def stage_ne_condition_def)
  qed
next
  have "sales_stage_where_clause (Some [stage])
          = ''where: { StageName: { ne: '' @ dq @ stage @ dq @ '' } }''"
    by (simp add: sales_stage_where_clause_def stage_ne_condition_def)
  then show "sublist (''where: { StageName: { ne: '' @ dq @ stage @ dq @ '' } }'')
        (sales_stage_query (sales_stage_where_clause (Some [stage])) limit)"
    using sales_stage_query_holds_clause[of "sales_stage_where_clause (Some [stage])" limit]
    by (simp only:)
next
  assume two: "2 \<le> length stages"
  then show w: "sales_stage_where_clause (Some stages) = []"
    by (rule sales_stage_where_clause_many)
  have n: "sales_stage_where_clause None = []"
    by (simp add: sales_stage_where_clause_def)
  show "sales_stage_query (sales_stage_where_clause (Some stages)) limit
          = sales_stage_query (sales_stage_where_clause None) limit"
    by (simp only: w n)
  show "sales_stage_analysis (echoing W) (Some stages) limit
          = Inr (error_payload (Exn ''Sent'' (sales_stage_query [] limit)))"
    by (simp add: sales_stage_analysis_def sales_stage_body_def w execute_query_echoing)
  show "\<not> sublist ''where'' (sales_stage_query [] limit)"
    by (rule sales_stage_query_without_where)
  define q where "q = sales_stage_query [] limit"
  show "\<exists>p p'. sales_stage_analysis W (Some stages) limit = Inr p
               \<and> sales_stage_analysis W None limit = Inr p'
               \<and> py_index p ''summary'' = py_index p' ''summary''
               \<and> py_index p ''stage_analysis'' = py_index p' ''stage_analysis''"
  proof (cases "sales_stage_body W q (Some stages)")
    case (Inl e)
    then have "sales_stage_body W q None = Inl e" by (rule sales_stage_body_echo)
    then show ?thesis
      using Inl by (simp add: sales_stage_analysis_def w n q_def[symmetric])
  next
    case (Inr p)
    then obtain p' where p': "sales_stage_body W q None = Inr p'"
      using sales_stage_body_echo[of W q None _ "Some stages"]
      by (cases "sales_stage_body W q None") auto
    show ?thesis
      using Inr p' sales_stage_body_same_analysis[OF Inr p']
      by (simp add: sales_stage_analysis_def w n q_def[symmetric])
  qed
  assume a: "s \<in> set stages
           \<and> execute_query W (sales_stage_query [] limit) PNone = Inr result
           \<and> edges_of result ''Opportunity'' = Inr (PList es)
           \<and> edge \<in> set es
           \<and> py_index edge ''node'' = Inr node
           \<and> get2 node ''StageName'' ''value'' (PStr ''Unknown'') = Inr (PStr s)
           \<and> sales_stage_analysis W (Some stages) limit = Inr payload
           \<and> py_get payload ''success'' PNone = Inr (PBool True)"
  then have b: "sales_stage_body W (sales_stage_query [] limit) (Some stages) = Inr payload"
    using sales_stage_analysis_success[of W "Some stages" limit payload] by (simp add: w)
  from a show "\<exists>n. 1 \<le> n \<and> get3 payload ''stage_analysis'' s ''count'' PNone = Inr (PInt n)"
    using sales_stage_body_includes_stage[OF b, of result es edge node s] by blast
qed

theorem exclusion_only_for_one_stage_witness:
  "2 \<le> length [''Prospecting'', ''Closed Lost'']
   \<and> sales_stage_where_clause (Some [''Prospecting'', ''Closed Lost'']) = []
   \<and> sales_stage_where_clause (Some [''Closed Won''])
       = ''where: { StageName: { ne: '' @ dq @ ''Closed Won'' @ dq @ '' } }''
   \<and> sales_stage_analysis (echoing (world_of (ok_response seven_in_org)))
        (Some [''Prospecting'', ''Closed Lost'']) 100
       = Inr (error_payload (Exn ''Sent'' (sales_stage_query [] 100)))
   \<and> \<not> sublist ''where'' (sales_stage_query [] 100)
   \<and> bindE (py_index (opportunity_edge ''A'' 100000 (PDict [])) ''node'')
        (\<lambda>node. get2 node ''StageName'' ''value'' (PStr ''Unknown'')) = Inr (PStr ''Prospecting'')
   \<and> bindE (sales_stage_analysis (world_of (ok_response seven_in_org))
              (Some [''Prospecting'', ''Closed Lost'']) 100)
        (\<lambda>p. py_get p ''success'' PNone) = Inr (PBool True)
   \<and> (\<exists>n. 1 \<le> n
        \<and> bindE (sales_stage_analysis (world_of (ok_response seven_in_org))
                   (Some [''Prospecting'', ''Closed Lost'']) 100)
             (\<lambda>p. get3 p ''stage_analysis'' ''Prospecting'' ''count'' PNone) = Inr (PInt n))
   \<and> bindE (sales_stage_analysis (world_of (ok_response seven_in_org))
              (Some [''Prospecting'', ''Closed Lost'']) 100)
        (\<lambda>p. get3 p ''stage_analysis'' ''Prospecting'' ''count'' PNone) = Inr (PInt 1)"
proof -
  let ?W = "world_of (ok_response seven_in_org)"
  let ?stages = "[''Prospecting'', ''Closed Lost'']"
  let ?edge = "opportunity_edge ''A'' 100000 (PDict [])"
  note inst = exclusion_only_for_one_stage
                [where exclude_stages = "Some [''Closed Won'']" and stage = "''Closed Won''"
                   and limit = 100 and stages = ?stages and W = ?W and s = "''Prospecting''"
                   and result = seven_in_org and es = "[?edge]" and edge = ?edge]
  have l: "2 \<le> length ?stages"
    by simp
  have one: "sales_stage_where_clause (Some [''Closed Won''])
       = ''where: { StageName: { ne: '' @ dq @ ''Closed Won'' @ dq @ '' } }''"
    by (simp add: sales_stage_where_clause_def stage_ne_condition_def)
  obtain node where node: "py_index ?edge ''node'' = Inr node"
    and stage: "get2 node ''StageName'' ''value'' (PStr ''Unknown'') = Inr (PStr ''Prospecting'')"
    by (simp add: opportunity_edge_def value_of_def get2_def)
  have x: "execute_query ?W (sales_stage_query [] 100) PNone = Inr seven_in_org"
    by (simp add: seven_in_org_def execute_query_connection_body)
  have es: "edges_of seven_in_org ''Opportunity'' = Inr (PList [?edge])"
    by (simp add: seven_in_org_def edges_of_connection_body)
  have w: "sales_stage_where_clause (Some ?stages) = []"
    using inst l by blast
  have c1: "bindE (sales_stage_body ?W (sales_stage_query [] 100) (Some ?stages))
              (\<lambda>p. get3 p ''stage_analysis'' ''Prospecting'' ''count'' PNone) = Inr (PInt 1)"
    by (simp add: sales_stage_body_def seven_in_org_def execute_query_connection_body
          edges_of_connection_body total_count_of_connection_body sales_stage_step_example
          float_overflows_def sort_desc_def stage_metrics_dict_def get3_def)
  then obtain q where q: "sales_stage_body ?W (sales_stage_query [] 100) (Some ?stages) = Inr q"
    by (cases "sales_stage_body ?W (sales_stage_query [] 100) (Some ?stages)") auto
  then have a: "sales_stage_analysis ?W (Some ?stages) 100 = Inr q"
    by (simp add: sales_stage_analysis_def w)
  have s: "py_get q ''success'' PNone = Inr (PBool True)"
    using q by (rule sales_stage_body_success)
  from inst[of node q] l x es node stage a s
  have ex: "\<exists>n. 1 \<le> n \<and> get3 q ''stage_analysis'' ''Prospecting'' ''count'' PNone = Inr (PInt n)"
    by simp
  have sent: "sales_stage_analysis (echoing ?W) (Some ?stages) 100
       = Inr (error_payload (Exn ''Sent'' (sales_stage_query [] 100)))"
    and nw: "\<not> sublist ''where'' (sales_stage_query [] 100)"
    using inst l by blast+
  from l w one sent nw node stage a s ex c1 q show ?thesis
    by simp
qed

text \<open>
  Claim C10. \<open>high_value_pipeline_analysis\<close> always returns a payload, and in every payload
  that reports success the field \<open>filter_applied.total_in_org\<close> is the constant 34,
  whatever the remote service answered and whatever the arguments are.
\<close>

theorem total_in_org_is_constant_34:
  "\<exists>p. high_value_pipeline_analysis W min_amount limit = Inr p
      \<and> (py_get p ''success'' PNone = Inr (PBool True)
           \<longrightarrow> get2 p ''filter_applied'' ''total_in_org'' PNone = Inr (PInt 34))"
proof (cases "high_value_pipeline_body W min_amount limit")
  case (Inl e)
  then show ?thesis
    by (simp add: high_value_pipeline_analysis_def error_payload_def)
next
  case (Inr p)
  then show ?thesis
    using high_value_pipeline_body_success[OF Inr]
    by (simp add: high_value_pipeline_analysis_def)
qed

theorem total_in_org_is_constant_34_witness:
  "total_count_of seven_in_org ''Opportunity'' = Inr (PInt 7)
   \<and> bindE (high_value_pipeline_analysis (world_of (ok_response seven_in_org)) 50000 50)
        (\<lambda>p. py_get p ''success'' PNone) = Inr (PBool True)
   \<and> bindE (high_value_pipeline_analysis (world_of (ok_response seven_in_org)) 50000 50)
        (\<lambda>p. get2 p ''filter_applied'' ''total_in_org'' PNone) = Inr (PInt 34)"
proof -
  let ?W = "world_of (ok_response seven_in_org)"
  have t: "total_count_of seven_in_org ''Opportunity'' = Inr (PInt 7)"
    by (simp add: seven_in_org_def total_count_of_connection_body)
  obtain st where st: "pipeline_step ?W (opportunity_edge ''A'' 100000 (PDict [])) pipeline_init = Inr st"
    using pipeline_step_empty_account[of 100000] by (auto simp: float_overflows_def)
  have "\<exists>q. high_value_pipeline_body ?W 50000 50 = Inr q"
    by (simp add: high_value_pipeline_body_def seven_in_org_def execute_query_connection_body
          edges_of_connection_body total_count_of_connection_body st[unfolded seven_in_org_def])
  then obtain q where q: "high_value_pipeline_body ?W 50000 50 = Inr q"
    by blast
  have s: "bindE (high_value_pipeline_analysis ?W 50000 50) (\<lambda>p. py_get p ''success'' PNone)
           = Inr (PBool True)"
    using high_value_pipeline_body_success[OF q] q
    by (simp add: high_value_pipeline_analysis_def)
  obtain p where p: "high_value_pipeline_analysis ?W 50000 50 = Inr p"
    and imp: "py_get p ''success'' PNone = Inr (PBool True)
           \<longrightarrow> get2 p ''filter_applied'' ''total_in_org'' PNone = Inr (PInt 34)"
    using total_in_org_is_constant_34[of ?W 50000 50] by blast
  from s p have "py_get p ''success'' PNone = Inr (PBool True)" by simp
  with imp have "get2 p ''filter_applied'' ''total_in_org'' PNone = Inr (PInt 34)" by blast
  with t s p show ?thesis by simp
qed

end
